theory Spec2Isabelle
  imports Complex_Main "HOL-Library.Word"
begin

section \<open>Time\<close>

text \<open>
  A \<^verbatim>\<open>time.Time\<close> is an absolute instant, here the number of nanoseconds since the
  Unix epoch; a \<^verbatim>\<open>time.Duration\<close> is a number of nanoseconds. Every reading of the
  wall clock (\<^verbatim>\<open>time.Now()\<close>, SQLite's \<^verbatim>\<open>CURRENT_TIMESTAMP\<close>) is an argument
  of the function that reads it, one argument per reading, in the order of the reads.
\<close>

type_synonym time = int
type_synonym duration = int

definition Second :: duration where
  "Second = 1000000000"

definition Minute :: duration where
  "Minute = 60 * Second"

definition Hour :: duration where
  "Hour = 60 * Minute"

section \<open>The credential store\<close>

subsection \<open>Rows and tables\<close>

text \<open>
  \<^verbatim>\<open>models.Lender\<close> and \<^verbatim>\<open>models.Account\<close>. A \<^verbatim>\<open>sql.NullTime\<close> is a
  \<^typ>\<open>time option\<close>. The interest rate is a \<^verbatim>\<open>float64\<close>, modelled by a real number:
  NaN and the infinities are outside the model (SQLite refuses both on insertion).
\<close>

record Lender =
  LenderID :: int
  BusinessName :: string
  PhoneNumber :: string
  Email :: string
  InterestRatePercent :: real
  CreatedAt :: time
  UpdatedAt :: time
  IsActive :: bool

record Account =
  AccountID :: int
  LenderID :: int
  Username :: string
  PasswordHash :: string
  CreatedAt :: time
  UpdatedAt :: time
  LastLogin :: "time option"
  IsLocked :: bool

text \<open>
  The store: the rows of \<^verbatim>\<open>Lenders\<close> and \<^verbatim>\<open>Accounts\<close> in insertion order, and
  for each table the counter SQLite keeps for an \<^verbatim>\<open>AUTOINCREMENT\<close> key (the largest
  key the table ever held; 0 for a fresh table). The connection is opened from a plain
  file path, so SQLite does not enforce the \<^verbatim>\<open>REFERENCES\<close> clauses: an account whose
  lender row is gone is a state of the store.
\<close>

record db =
  Lenders :: "Lender list"
  Accounts :: "Account list"
  seq_Lenders :: int
  seq_Accounts :: int

text \<open>
  A Go \<^verbatim>\<open>error\<close> of the repository package: its two sentinels,
  \<^verbatim>\<open>sql.ErrNoRows\<close>, or an error of the driver, kept by its message.
\<close>

datatype error =
    ErrAccountNotFound
  | ErrLenderNotFound
  | ErrNoRows
  | DriverError string

text \<open>
  Every call into \<^verbatim>\<open>database/sql\<close> can fail for reasons outside the program (a lost
  connection, a full disk). The environment is a function that tells, for each call site
  of the repository, the message of the error the driver answers with, or \<open>None\<close> when
  the driver performs the call.
\<close>

datatype store_call =
    Begin
  | Prepare_InsertLender
  | Exec_InsertLender
  | LastInsertId_Lender
  | Prepare_InsertAccount
  | Exec_InsertAccount
  | LastInsertId_Account
  | Commit
  | QueryRow_Accounts
  | QueryRow_Lenders
  | Prepare_UpdateLastLogin
  | Exec_UpdateLastLogin

type_synonym faults = "store_call \<Rightarrow> string option"

definition no_faults :: faults where
  "no_faults = (\<lambda>c. None)"

definition max_int64 :: int where
  "max_int64 = 9223372036854775807"

text \<open>
  The key SQLite gives a new row of an \<^verbatim>\<open>AUTOINCREMENT\<close> table: one more than the
  largest key present (1 for an empty table), raised to one more than the table's counter
  when that is larger.
\<close>

definition next_rowid :: "int \<Rightarrow> int list \<Rightarrow> int" where
  "next_rowid s ids =
     max (s + 1) (case ids of [] \<Rightarrow> 1 | i # rest \<Rightarrow> fold max rest i + 1)"

text \<open>
  \<^verbatim>\<open>INSERT INTO Lenders (Business_Name, Phone_Number, Email, Interest_Rate_Percent,
  Created_At, Updated_At) VALUES (?, ?, ?, ?, ?, ?)\<close> under the schema: the key is
  generated, \<^verbatim>\<open>Is_Active\<close> takes its default 1, the \<^verbatim>\<open>CHECK\<close> on the rate and
  the \<^verbatim>\<open>UNIQUE\<close> on the email are enforced. The result is the driver's error or the
  new key (\<^verbatim>\<open>LastInsertId\<close>) with the table after the insertion.
\<close>

definition insert_Lender ::
  "string \<Rightarrow> string \<Rightarrow> string \<Rightarrow> real \<Rightarrow> time \<Rightarrow> time \<Rightarrow> db \<Rightarrow> error + (int \<times> db)" where
  "insert_Lender businessName phone email interestRate created updated d =
     (let i = next_rowid (seq_Lenders d) (map Lender.LenderID (Lenders d)) in
      if max_int64 < i then Inl (DriverError ''database or disk is full'')
      else if \<not> (0 \<le> interestRate \<and> interestRate \<le> 100)
        then Inl (DriverError
               ''CHECK constraint failed: Interest_Rate_Percent >= 0 AND Interest_Rate_Percent <= 100'')
      else if email \<in> set (map Email (Lenders d))
        then Inl (DriverError ''UNIQUE constraint failed: Lenders.Email'')
      else Inr (i, d\<lparr>Lenders := Lenders d @
                  [\<lparr>Lender.LenderID = i, BusinessName = businessName, PhoneNumber = phone,
                    Email = email, InterestRatePercent = interestRate,
                    Lender.CreatedAt = created, Lender.UpdatedAt = updated,
                    IsActive = True\<rparr>],
                seq_Lenders := i\<rparr>))"

text \<open>
  \<^verbatim>\<open>INSERT INTO Accounts (Lender_ID, Username, Password_Hash, Created_At, Updated_At)
  VALUES (?, ?, ?, ?, ?)\<close>: \<^verbatim>\<open>Last_Login\<close> is left NULL, \<^verbatim>\<open>Is_Locked\<close> takes its
  default 0, the \<^verbatim>\<open>UNIQUE\<close> on the username is enforced.
\<close>

definition insert_Account ::
  "int \<Rightarrow> string \<Rightarrow> string \<Rightarrow> time \<Rightarrow> time \<Rightarrow> db \<Rightarrow> error + (int \<times> db)" where
  "insert_Account lenderID username passwordHash created updated d =
     (let i = next_rowid (seq_Accounts d) (map AccountID (Accounts d)) in
      if max_int64 < i then Inl (DriverError ''database or disk is full'')
      else if username \<in> set (map Username (Accounts d))
        then Inl (DriverError ''UNIQUE constraint failed: Accounts.Username'')
      else Inr (i, d\<lparr>Accounts := Accounts d @
                  [\<lparr>AccountID = i, Account.LenderID = lenderID, Username = username,
                    PasswordHash = passwordHash, Account.CreatedAt = created,
                    Account.UpdatedAt = updated, LastLogin = None, IsLocked = False\<rparr>],
                seq_Accounts := i\<rparr>))"

subsection \<open>CreateLenderAndAccount\<close>

text \<open>
  The function returns the pair \<^verbatim>\<open>(int, error)\<close> of the source, a nil error being
  \<open>None\<close>, and the store as every reader sees it afterwards. Inside the transaction the
  statements work on \<open>tx\<close>, the transaction's own view; the deferred
  \<^verbatim>\<open>tx.Rollback()\<close> discards that view on every return but a successful
  \<^verbatim>\<open>tx.Commit()\<close>, which publishes it. A failed commit leaves the transaction rolled
  back, as the source's comment on the deferred call says. Go's \<^verbatim>\<open>int\<close> is taken to be
  64 bits wide, so the conversion \<^verbatim>\<open>int(accountID)\<close> changes nothing.
\<close>

definition CreateLenderAndAccount ::
  "faults \<Rightarrow> time \<Rightarrow> string \<Rightarrow> string \<Rightarrow> string \<Rightarrow> string \<Rightarrow> string \<Rightarrow> real \<Rightarrow> db
     \<Rightarrow> (int \<times> error option) \<times> db" where
  "CreateLenderAndAccount fails now businessName email phone username passwordHash interestRate d =
     (case fails Begin of
        Some e \<Rightarrow> ((0, Some (DriverError e)), d)
      | None \<Rightarrow>
     (case fails Prepare_InsertLender of
        Some e \<Rightarrow> ((0, Some (DriverError e)), d)
      | None \<Rightarrow>
     (case fails Exec_InsertLender of
        Some e \<Rightarrow> ((0, Some (DriverError e)), d)
      | None \<Rightarrow>
     (case insert_Lender businessName phone email interestRate now now d of
        Inl err \<Rightarrow> ((0, Some err), d)
      | Inr (lenderID, tx) \<Rightarrow>
     (case fails LastInsertId_Lender of
        Some e \<Rightarrow> ((0, Some (DriverError e)), d)
      | None \<Rightarrow>
     (case fails Prepare_InsertAccount of
        Some e \<Rightarrow> ((0, Some (DriverError e)), d)
      | None \<Rightarrow>
     (case fails Exec_InsertAccount of
        Some e \<Rightarrow> ((0, Some (DriverError e)), d)
      | None \<Rightarrow>
     (case insert_Account lenderID username passwordHash now now tx of
        Inl err \<Rightarrow> ((0, Some err), d)
      | Inr (accountID, tx') \<Rightarrow>
     (case fails LastInsertId_Account of
        Some e \<Rightarrow> ((0, Some (DriverError e)), d)
      | None \<Rightarrow>
     (case fails Commit of
        Some e \<Rightarrow> ((accountID, Some (DriverError e)), d)
      | None \<Rightarrow> ((accountID, None), tx')))))))))))"

subsection \<open>The lookups\<close>

text \<open>
  \<^verbatim>\<open>db.QueryRow(query, arg).Scan(...)\<close> on a table: the driver's error when the call
  fails, \<^verbatim>\<open>sql.ErrNoRows\<close> when no row satisfies the \<^verbatim>\<open>WHERE\<close> clause, the first
  such row otherwise.
\<close>

definition QueryRow_Scan :: "string option \<Rightarrow> ('r \<Rightarrow> bool) \<Rightarrow> 'r list \<Rightarrow> error + 'r" where
  "QueryRow_Scan fault wh rows =
     (case fault of
        Some e \<Rightarrow> Inl (DriverError e)
      | None \<Rightarrow> (case find wh rows of None \<Rightarrow> Inl ErrNoRows | Some r \<Rightarrow> Inr r))"

text \<open>
  The lookups return the pair of the source, a pointer to the row and an error: a nil
  pointer and a nil error are \<open>None\<close>.
\<close>

definition GetAccountByUsername :: "faults \<Rightarrow> string \<Rightarrow> db \<Rightarrow> Account option \<times> error option" where
  "GetAccountByUsername fails username d =
     (case QueryRow_Scan (fails QueryRow_Accounts) (\<lambda>a. Username a = username) (Accounts d) of
        Inl err \<Rightarrow>
          if err = ErrNoRows then (None, Some ErrAccountNotFound) else (None, Some err)
      | Inr account \<Rightarrow> (Some account, None))"

definition GetAccountByID :: "faults \<Rightarrow> int \<Rightarrow> db \<Rightarrow> Account option \<times> error option" where
  "GetAccountByID fails accountID d =
     (case QueryRow_Scan (fails QueryRow_Accounts) (\<lambda>a. AccountID a = accountID) (Accounts d) of
        Inl err \<Rightarrow>
          if err = ErrNoRows then (None, Some ErrAccountNotFound) else (None, Some err)
      | Inr account \<Rightarrow> (Some account, None))"

definition GetLenderByAccountID :: "faults \<Rightarrow> int \<Rightarrow> db \<Rightarrow> Lender option \<times> error option" where
  "GetLenderByAccountID fails accountID d =
     (case QueryRow_Scan (fails QueryRow_Accounts) (\<lambda>a. AccountID a = accountID) (Accounts d) of
        Inl err \<Rightarrow>
          if err = ErrNoRows then (None, Some ErrAccountNotFound) else (None, Some err)
      | Inr account \<Rightarrow>
          (let lenderID = Account.LenderID account in
           case QueryRow_Scan (fails QueryRow_Lenders) (\<lambda>l. Lender.LenderID l = lenderID) (Lenders d) of
             Inl err \<Rightarrow>
               if err = ErrNoRows then (None, Some ErrLenderNotFound) else (None, Some err)
           | Inr lender \<Rightarrow> (Some lender, None)))"

subsection \<open>UpdateLastLogin and the trigger on Accounts\<close>

text \<open>
  The body of the trigger \<^verbatim>\<open>update_accounts_updated_at\<close> (internal/database):
  \<^verbatim>\<open>UPDATE Accounts SET Updated_At = CURRENT_TIMESTAMP WHERE Account_ID = OLD.Account_ID\<close>.
  SQLite does not fire a trigger from a trigger's own statement unless asked to, so the
  body runs once for each row the program's statement changes.
\<close>

definition update_accounts_updated_at :: "time \<Rightarrow> int \<Rightarrow> Account list \<Rightarrow> Account list" where
  "update_accounts_updated_at current_timestamp old_Account_ID rows =
     map (\<lambda>a. if AccountID a = old_Account_ID
              then a\<lparr>Account.UpdatedAt := current_timestamp\<rparr> else a) rows"

text \<open>
  \<^verbatim>\<open>UPDATE Accounts SET Last_Login = ? WHERE Account_ID = ?\<close>, followed by the trigger
  for each row that matched.
\<close>

definition update_Last_Login :: "time \<Rightarrow> time \<Rightarrow> int \<Rightarrow> Account list \<Rightarrow> Account list" where
  "update_Last_Login now current_timestamp accountID rows =
     fold (\<lambda>old. update_accounts_updated_at current_timestamp (AccountID old))
       (filter (\<lambda>a. AccountID a = accountID) rows)
       (map (\<lambda>a. if AccountID a = accountID then a\<lparr>LastLogin := Some now\<rparr> else a) rows)"

text \<open>
  \<^verbatim>\<open>UpdateLastLogin\<close> returns the error of \<^verbatim>\<open>Prepare\<close> or of \<^verbatim>\<open>Exec\<close>; the
  number of rows the statement changed is not read.
\<close>

definition UpdateLastLogin :: "faults \<Rightarrow> time \<Rightarrow> time \<Rightarrow> int \<Rightarrow> db \<Rightarrow> error option \<times> db" where
  "UpdateLastLogin fails now current_timestamp accountID d =
     (case fails Prepare_UpdateLastLogin of
        Some e \<Rightarrow> (Some (DriverError e), d)
      | None \<Rightarrow>
     (case fails Exec_UpdateLastLogin of
        Some e \<Rightarrow> (Some (DriverError e), d)
      | None \<Rightarrow>
          (None, d\<lparr>Accounts := update_Last_Login now current_timestamp accountID (Accounts d)\<rparr>)))"

text \<open>The store right after \<^verbatim>\<open>InitializeSchema\<close>: both tables empty.\<close>

definition empty_db :: db where
  "empty_db = \<lparr>Lenders = [], Accounts = [], seq_Lenders = 0, seq_Accounts = 0\<rparr>"

text \<open>
  The store after the first call of the repository's test \<^verbatim>\<open>TestCreateLenderAndAccount\<close>,
  made at the instant 1000.
\<close>

definition lenderuser_db :: db where
  "lenderuser_db =
     \<lparr>Lenders = [\<lparr>Lender.LenderID = 1, BusinessName = ''Lender Business'',
                   PhoneNumber = ''123-456-7890'', Email = ''lender@example.com'',
                   InterestRatePercent = 5, Lender.CreatedAt = 1000,
                   Lender.UpdatedAt = 1000, IsActive = True\<rparr>],
      Accounts = [\<lparr>AccountID = 1, Account.LenderID = 1, Username = ''lenderuser'',
                    PasswordHash = ''hashedpassword'', Account.CreatedAt = 1000,
                    Account.UpdatedAt = 1000, LastLogin = None, IsLocked = False\<rparr>],
      seq_Lenders = 1, seq_Accounts = 1\<rparr>"

text \<open>A store whose only account refers to a lender row that is gone.\<close>

definition orphan_db :: db where
  "orphan_db = lenderuser_db\<lparr>Lenders := []\<rparr>"

text \<open>An environment in which every call succeeds but \<^verbatim>\<open>tx.Commit()\<close>.\<close>

definition commit_fails :: faults where
  "commit_fails = (\<lambda>c. if c = Commit then Some ''disk I/O error'' else None)"

section \<open>The token engine\<close>

subsection \<open>The token library\<close>

text \<open>
  The package \<^verbatim>\<open>github.com/golang-jwt/jwt/v5\<close> is not part of the repository. What the
  repository uses of it is modelled here after version 5 of the library: the registered
  claims, the registry of signing methods, signing, and \<^verbatim>\<open>ParseWithClaims\<close> with its
  four stages (decode, look up the key, verify the signature, validate the claims).
\<close>

record RegisteredClaims =
  Issuer :: string
  Subject :: string
  Audience :: "string list"
  ExpiresAt :: "time option"
  NotBefore :: "time option"
  IssuedAt :: "time option"
  ID :: string

text \<open>
  \<^verbatim>\<open>jwt.NewNumericDate\<close> truncates an instant to the library's \<^verbatim>\<open>TimePrecision\<close>,
  one second.
\<close>

definition NewNumericDate :: "time \<Rightarrow> time" where
  "NewNumericDate t = t - t mod Second"

datatype hash = SHA256 | SHA384 | SHA512

datatype signing_method =
    SigningMethodHMAC hash
  | SigningMethodRSA hash
  | SigningMethodRSAPSS hash
  | SigningMethodECDSA hash
  | SigningMethodEd25519
  | SigningMethodNone

definition signing_methods :: "(string \<times> signing_method) list" where
  "signing_methods =
     [(''HS256'', SigningMethodHMAC SHA256), (''HS384'', SigningMethodHMAC SHA384),
      (''HS512'', SigningMethodHMAC SHA512),
      (''RS256'', SigningMethodRSA SHA256), (''RS384'', SigningMethodRSA SHA384),
      (''RS512'', SigningMethodRSA SHA512),
      (''PS256'', SigningMethodRSAPSS SHA256), (''PS384'', SigningMethodRSAPSS SHA384),
      (''PS512'', SigningMethodRSAPSS SHA512),
      (''ES256'', SigningMethodECDSA SHA256), (''ES384'', SigningMethodECDSA SHA384),
      (''ES512'', SigningMethodECDSA SHA512),
      (''EdDSA'', SigningMethodEd25519), (''none'', SigningMethodNone)]"

definition GetSigningMethod :: "string \<Rightarrow> signing_method option" where
  "GetSigningMethod alg = map_of signing_methods alg"

definition Alg :: "signing_method \<Rightarrow> string" where
  "Alg m = (case find (\<lambda>(n, m'). m' = m) signing_methods of Some (n, _) \<Rightarrow> n | None \<Rightarrow> [])"

text \<open>
  The sentinel errors of the library. An error of the library wraps one or more of them;
  it is modelled by the list of the sentinels it wraps, and \<^verbatim>\<open>errors.Is\<close> asks whether
  a sentinel is among them.
\<close>

datatype jwt_sentinel =
    ErrTokenMalformed
  | ErrTokenUnverifiable
  | ErrTokenSignatureInvalid
  | ErrTokenInvalidClaims
  | ErrTokenExpired
  | ErrTokenNotValidYet
  | ErrInvalidKeyType
  | ErrSignatureInvalid

type_synonym jwt_error = "jwt_sentinel list"

definition errors_Is :: "jwt_error \<Rightarrow> jwt_sentinel \<Rightarrow> bool" where
  "errors_Is err target = (target \<in> set err)"

text \<open>
  A token string is represented by what the library's decoder reads from it. Either the
  string is not three period-separated segments of which the first is the base64url
  encoding of a JSON header and the second that of a JSON object that decodes into the
  claims type; the empty string is \<open>NotAToken []\<close>. Or it is, and the decoder yields
  the header's \<^verbatim>\<open>alg\<close> (when the header has one that is a string), the claims, and
  the bytes of the third segment, \<open>None\<close> when that segment is not base64url.
\<close>

datatype 'c token_string =
    NotAToken string
  | Encoded "string option" 'c "string option"

text \<open>
  The releases of version 5 differ in one point of \<^verbatim>\<open>ParseWithClaims\<close>: some call
  the key function before they decode the third segment, the others after. The
  repository's files do not say which release it builds with, so the order is a
  parameter of the model.
\<close>

datatype parser_release = Keyfunc_before_signature | Signature_before_keyfunc

text \<open>
  HMAC is a parameter of the model: a function from the hash, the key and the signing
  input (the first two segments, given by the header's \<^verbatim>\<open>alg\<close> and the claims) to
  the tag. Nothing is assumed about it.
\<close>

type_synonym 'c hmac = "hash \<Rightarrow> string \<Rightarrow> string option \<times> 'c \<Rightarrow> string"

text \<open>
  \<^verbatim>\<open>token.SignedString(key)\<close> with a key of type \<^verbatim>\<open>[]byte\<close>: an HMAC method signs
  with any key, the empty one included; every other method refuses a byte-slice key.
\<close>

definition SignedString :: "'c hmac \<Rightarrow> signing_method \<Rightarrow> 'c \<Rightarrow> string \<Rightarrow> jwt_error + 'c token_string" where
  "SignedString mac method claims key =
     (case method of
        SigningMethodHMAC h \<Rightarrow>
          Inr (Encoded (Some (Alg method)) claims
                 (Some (mac h key (Some (Alg method), claims))))
      | _ \<Rightarrow> Inl [ErrInvalidKeyType])"

text \<open>\<^verbatim>\<open>token.Method.Verify(signingInput, signature, key)\<close> with a byte-slice key.\<close>

definition Verify :: "'c hmac \<Rightarrow> signing_method \<Rightarrow> string option \<times> 'c \<Rightarrow> string \<Rightarrow> string \<Rightarrow> bool" where
  "Verify mac method signing_input sig key =
     (case method of
        SigningMethodHMAC h \<Rightarrow> mac h key signing_input = sig
      | _ \<Rightarrow> False)"

text \<open>
  The validator with its default options and a leeway: the expiry and the not-before
  instant are checked when present, the issued-at instant is not checked.
\<close>

definition verifyExpiresAt :: "time \<Rightarrow> duration \<Rightarrow> 'm RegisteredClaims_scheme \<Rightarrow> bool" where
  "verifyExpiresAt now leeway claims =
     (case ExpiresAt claims of None \<Rightarrow> True | Some expiry \<Rightarrow> now < expiry + leeway)"

definition verifyNotBefore :: "time \<Rightarrow> duration \<Rightarrow> 'm RegisteredClaims_scheme \<Rightarrow> bool" where
  "verifyNotBefore now leeway claims =
     (case NotBefore claims of None \<Rightarrow> True | Some nbf \<Rightarrow> \<not> now < nbf - leeway)"

definition Validate :: "time \<Rightarrow> duration \<Rightarrow> 'm RegisteredClaims_scheme \<Rightarrow> jwt_sentinel list" where
  "Validate now leeway claims =
     (if verifyExpiresAt now leeway claims then [] else [ErrTokenExpired]) @
     (if verifyNotBefore now leeway claims then [] else [ErrTokenNotValidYet])"

record 'c Token =
  Method :: signing_method
  Claims :: 'c
  Signature :: string
  Valid :: bool

text \<open>
  The last two stages of \<^verbatim>\<open>ParseWithClaims\<close>, once the key and the signature bytes
  are there: the method verifies the signature, then the validator checks the claims;
  \<open>now\<close> is the validator's reading of the clock.
\<close>

definition verify_and_validate ::
  "'m RegisteredClaims_scheme hmac \<Rightarrow> time \<Rightarrow> duration \<Rightarrow> signing_method \<Rightarrow> string option
     \<Rightarrow> 'm RegisteredClaims_scheme \<Rightarrow> string \<Rightarrow> string
     \<Rightarrow> jwt_error + 'm RegisteredClaims_scheme Token" where
  "verify_and_validate mac now leeway sm alg claims sig key =
     (if \<not> Verify mac sm (alg, claims) sig key
        then Inl [ErrTokenSignatureInvalid, ErrSignatureInvalid]
      else (case Validate now leeway claims of
              [] \<Rightarrow> Inr \<lparr>Method = sm, Claims = claims, Signature = sig, Valid = True\<rparr>
            | errs \<Rightarrow> Inl (ErrTokenInvalidClaims # errs)))"

text \<open>
  \<^verbatim>\<open>jwt.ParseWithClaims(tokenString, claims, keyFunc, jwt.WithLeeway(leeway))\<close>: a
  string that does not decode is malformed; a header without an algorithm, or with one
  the registry does not know, makes the token unverifiable, before the third segment
  is looked at; then, in the order of the release, the key function is called (its error
  makes the token unverifiable) and the third segment is decoded (a failure makes the
  token malformed); then the signature and the claims are checked. The key function
  answers with a key or with the message of its error.
\<close>

definition ParseWithClaims ::
  "parser_release \<Rightarrow> 'm RegisteredClaims_scheme hmac \<Rightarrow> time \<Rightarrow> duration
     \<Rightarrow> (signing_method \<Rightarrow> string + string)
     \<Rightarrow> 'm RegisteredClaims_scheme token_string
     \<Rightarrow> jwt_error + 'm RegisteredClaims_scheme Token" where
  "ParseWithClaims release mac now leeway keyFunc tokenString =
     (case tokenString of
        NotAToken s \<Rightarrow> Inl [ErrTokenMalformed]
      | Encoded alg claims segment \<Rightarrow>
     (case alg of
        None \<Rightarrow> Inl [ErrTokenUnverifiable]
      | Some name \<Rightarrow>
     (case GetSigningMethod name of
        None \<Rightarrow> Inl [ErrTokenUnverifiable]
      | Some sm \<Rightarrow>
     (case release of
        Keyfunc_before_signature \<Rightarrow>
          (case keyFunc sm of
             Inl msg \<Rightarrow> Inl [ErrTokenUnverifiable]
           | Inr key \<Rightarrow>
          (case segment of
             None \<Rightarrow> Inl [ErrTokenMalformed]
           | Some sig \<Rightarrow> verify_and_validate mac now leeway sm alg claims sig key))
      | Signature_before_keyfunc \<Rightarrow>
          (case segment of
             None \<Rightarrow> Inl [ErrTokenMalformed]
           | Some sig \<Rightarrow>
          (case keyFunc sm of
             Inl msg \<Rightarrow> Inl [ErrTokenUnverifiable]
           | Inr key \<Rightarrow> verify_and_validate mac now leeway sm alg claims sig key))))))"

subsection \<open>What both variants of the auth package share\<close>

definition AccessTokenDuration :: duration where
  "AccessTokenDuration = 15 * Minute"

definition RefreshTokenDuration :: duration where
  "RefreshTokenDuration = 7 * 24 * Hour"

record 't TokenPair =
  AccessToken :: 't
  RefreshToken :: 't

text \<open>
  A Go \<^verbatim>\<open>error\<close> of the auth package: one made by \<^verbatim>\<open>errors.New\<close> or
  \<^verbatim>\<open>fmt.Errorf\<close>, kept by its message, or an error of the token library.
\<close>

datatype auth_error =
    errors_New string
  | jwt_Error jwt_error

text \<open>
  The key function both variants give to \<^verbatim>\<open>ParseWithClaims\<close>: the secret for a method
  of the HMAC family, an error for any other.
\<close>

definition keyFunc :: "string \<Rightarrow> signing_method \<Rightarrow> string + string" where
  "keyFunc secretKey method =
     (case method of
        SigningMethodHMAC h \<Rightarrow> Inr secretKey
      | _ \<Rightarrow> Inl ''unexpected signing method'')"

subsection \<open>The auth package with account and lender identifiers (internal/auth/jwt.go)\<close>

record Claims = RegisteredClaims +
  AccountID :: "64 word"
  LenderID :: "64 word"

text \<open>
  \<^verbatim>\<open>GenerateAccessToken\<close> reads the clock twice while it builds the claims: first for
  \<^verbatim>\<open>ExpiresAt\<close> (\<open>now_exp\<close>), then for \<^verbatim>\<open>IssuedAt\<close> (\<open>now_iat\<close>). The result is
  the pair \<^verbatim>\<open>(string, error)\<close> of the source as a sum: the error, or the signed token.
\<close>

definition GenerateAccessToken ::
  "Claims hmac \<Rightarrow> time \<Rightarrow> time \<Rightarrow> 64 word \<Rightarrow> 64 word \<Rightarrow> string \<Rightarrow> auth_error + Claims token_string" where
  "GenerateAccessToken mac now_exp now_iat accountID lenderID secretKey =
     (let claims = \<lparr>Issuer = [], Subject = [], Audience = [],
                     ExpiresAt = Some (NewNumericDate (now_exp + AccessTokenDuration)),
                     NotBefore = None,
                     IssuedAt = Some (NewNumericDate now_iat),
                     ID = [],
                     Claims.AccountID = accountID, Claims.LenderID = lenderID\<rparr>
      in case SignedString mac (SigningMethodHMAC SHA256) claims secretKey of
           Inl err \<Rightarrow> Inl (jwt_Error err)
         | Inr signedToken \<Rightarrow> Inr signedToken)"

definition GenerateRefreshToken ::
  "Claims hmac \<Rightarrow> time \<Rightarrow> time \<Rightarrow> 64 word \<Rightarrow> 64 word \<Rightarrow> string \<Rightarrow> auth_error + Claims token_string" where
  "GenerateRefreshToken mac now_exp now_iat accountID lenderID secretKey =
     (let claims = \<lparr>Issuer = [], Subject = [], Audience = [],
                     ExpiresAt = Some (NewNumericDate (now_exp + RefreshTokenDuration)),
                     NotBefore = None,
                     IssuedAt = Some (NewNumericDate now_iat),
                     ID = [],
                     Claims.AccountID = accountID, Claims.LenderID = lenderID\<rparr>
      in case SignedString mac (SigningMethodHMAC SHA256) claims secretKey of
           Inl err \<Rightarrow> Inl (jwt_Error err)
         | Inr signedToken \<Rightarrow> Inr signedToken)"

text \<open>The four clock readings of \<^verbatim>\<open>GenerateTokenPair\<close>, in order: \<open>t1\<close> to \<open>t4\<close>.\<close>

definition GenerateTokenPair ::
  "Claims hmac \<Rightarrow> time \<Rightarrow> time \<Rightarrow> time \<Rightarrow> time \<Rightarrow> 64 word \<Rightarrow> 64 word \<Rightarrow> string
     \<Rightarrow> auth_error + Claims token_string TokenPair" where
  "GenerateTokenPair mac t1 t2 t3 t4 accountID lenderID secretKey =
     (case GenerateAccessToken mac t1 t2 accountID lenderID secretKey of
        Inl err \<Rightarrow> Inl err
      | Inr accessToken \<Rightarrow>
     (case GenerateRefreshToken mac t3 t4 accountID lenderID secretKey of
        Inl err \<Rightarrow> Inl err
      | Inr refreshToken \<Rightarrow>
          Inr \<lparr>AccessToken = accessToken, RefreshToken = refreshToken\<rparr>))"

text \<open>
  \<^verbatim>\<open>ValidateToken\<close> of this variant passes no option to the parser (the leeway is 0:
  the package's own test expects a token 50 milliseconds past its expiry to be refused)
  and returns the library's error as it is.
\<close>

definition ValidateToken ::
  "parser_release \<Rightarrow> Claims hmac \<Rightarrow> time \<Rightarrow> Claims token_string \<Rightarrow> string
     \<Rightarrow> auth_error + Claims" where
  "ValidateToken release mac now tokenString secretKey =
     (case ParseWithClaims release mac now 0 (keyFunc secretKey) tokenString of
        Inl err \<Rightarrow> Inl (jwt_Error err)
      | Inr token \<Rightarrow>
          if \<not> Valid token then Inl (errors_New ''invalid token'')
          else Inr (Claims token))"

definition ExtractAccountID ::
  "parser_release \<Rightarrow> Claims hmac \<Rightarrow> time \<Rightarrow> Claims token_string \<Rightarrow> string
     \<Rightarrow> auth_error + 64 word" where
  "ExtractAccountID release mac now tokenString secretKey =
     (case ValidateToken release mac now tokenString secretKey of
        Inl err \<Rightarrow> Inl err
      | Inr claims \<Rightarrow> Inr (Claims.AccountID claims))"

definition ExtractLenderID ::
  "parser_release \<Rightarrow> Claims hmac \<Rightarrow> time \<Rightarrow> Claims token_string \<Rightarrow> string
     \<Rightarrow> auth_error + 64 word" where
  "ExtractLenderID release mac now tokenString secretKey =
     (case ValidateToken release mac now tokenString secretKey of
        Inl err \<Rightarrow> Inl err
      | Inr claims \<Rightarrow> Inr (Claims.LenderID claims))"

subsection \<open>The auth package with a user identifier (second file under internal/server/server.go)\<close>

text \<open>
  The repository holds a second auth package, whose functions have the names of the first.
  Its definitions carry the suffix \<open>_UserID\<close> here. It checks the secret before any
  other work, gives the parser a leeway of five seconds and renames two of the library's
  errors.
\<close>

record Claims_UserID = RegisteredClaims +
  UserID :: "64 word"

definition GenerateAccessToken_UserID ::
  "Claims_UserID hmac \<Rightarrow> time \<Rightarrow> time \<Rightarrow> 64 word \<Rightarrow> string
     \<Rightarrow> auth_error + Claims_UserID token_string" where
  "GenerateAccessToken_UserID mac now_exp now_iat userID secretKey =
     (if secretKey = [] then Inl (errors_New ''secret key cannot be empty'')
      else
        let claims = \<lparr>Issuer = [], Subject = [], Audience = [],
                       ExpiresAt = Some (NewNumericDate (now_exp + AccessTokenDuration)),
                       NotBefore = None,
                       IssuedAt = Some (NewNumericDate now_iat),
                       ID = [],
                       UserID = userID\<rparr>
        in case SignedString mac (SigningMethodHMAC SHA256) claims secretKey of
             Inl err \<Rightarrow> Inl (jwt_Error err)
           | Inr signedToken \<Rightarrow> Inr signedToken)"

definition GenerateRefreshToken_UserID ::
  "Claims_UserID hmac \<Rightarrow> time \<Rightarrow> time \<Rightarrow> 64 word \<Rightarrow> string
     \<Rightarrow> auth_error + Claims_UserID token_string" where
  "GenerateRefreshToken_UserID mac now_exp now_iat userID secretKey =
     (if secretKey = [] then Inl (errors_New ''secret key cannot be empty'')
      else
        let claims = \<lparr>Issuer = [], Subject = [], Audience = [],
                       ExpiresAt = Some (NewNumericDate (now_exp + RefreshTokenDuration)),
                       NotBefore = None,
                       IssuedAt = Some (NewNumericDate now_iat),
                       ID = [],
                       UserID = userID\<rparr>
        in case SignedString mac (SigningMethodHMAC SHA256) claims secretKey of
             Inl err \<Rightarrow> Inl (jwt_Error err)
           | Inr signedToken \<Rightarrow> Inr signedToken)"

definition GenerateTokenPair_UserID ::
  "Claims_UserID hmac \<Rightarrow> time \<Rightarrow> time \<Rightarrow> time \<Rightarrow> time \<Rightarrow> 64 word \<Rightarrow> string
     \<Rightarrow> auth_error + Claims_UserID token_string TokenPair" where
  "GenerateTokenPair_UserID mac t1 t2 t3 t4 userID secretKey =
     (case GenerateAccessToken_UserID mac t1 t2 userID secretKey of
        Inl err \<Rightarrow> Inl err
      | Inr accessToken \<Rightarrow>
     (case GenerateRefreshToken_UserID mac t3 t4 userID secretKey of
        Inl err \<Rightarrow> Inl err
      | Inr refreshToken \<Rightarrow>
          Inr \<lparr>AccessToken = accessToken, RefreshToken = refreshToken\<rparr>))"

definition ValidateToken_UserID ::
  "parser_release \<Rightarrow> Claims_UserID hmac \<Rightarrow> time \<Rightarrow> Claims_UserID token_string \<Rightarrow> string
     \<Rightarrow> auth_error + Claims_UserID" where
  "ValidateToken_UserID release mac now tokenString secretKey =
     (if secretKey = [] then Inl (errors_New ''secret key cannot be empty'')
      else
        case ParseWithClaims release mac now (5 * Second) (keyFunc secretKey) tokenString of
          Inl err \<Rightarrow>
            if errors_Is err ErrTokenExpired then Inl (errors_New ''token expired'')
            else if errors_Is err ErrTokenSignatureInvalid
              then Inl (errors_New ''invalid token signature'')
            else Inl (jwt_Error err)
        | Inr token \<Rightarrow>
            if \<not> Valid token then Inl (errors_New ''invalid token'')
            else Inr (Claims token))"

definition ExtractUserID ::
  "parser_release \<Rightarrow> Claims_UserID hmac \<Rightarrow> time \<Rightarrow> Claims_UserID token_string \<Rightarrow> string
     \<Rightarrow> auth_error + 64 word" where
  "ExtractUserID release mac now tokenString secretKey =
     (case ValidateToken_UserID release mac now tokenString secretKey of
        Inl err \<Rightarrow> Inl err
      | Inr claims \<Rightarrow> Inr (UserID claims))"

subsection \<open>The failure kinds a caller tells apart\<close>

text \<open>
  The kinds of the specification, read off an error of the auth package the way a caller
  can: by the message of an error the package made itself, by \<^verbatim>\<open>errors.Is\<close> on an
  error of the library.
\<close>

datatype failure_kind = EmptySecret | Malformed | InvalidSignature | Expired | OtherFailure

definition kind_of :: "auth_error \<Rightarrow> failure_kind" where
  "kind_of err =
     (case err of
        errors_New msg \<Rightarrow>
          if msg = ''secret key cannot be empty'' then EmptySecret
          else if msg = ''token expired'' then Expired
          else if msg = ''invalid token signature'' then InvalidSignature
          else OtherFailure
      | jwt_Error e \<Rightarrow>
          if errors_Is e ErrTokenMalformed then Malformed
          else if errors_Is e ErrTokenSignatureInvalid then InvalidSignature
          else if errors_Is e ErrTokenExpired then Expired
          else OtherFailure)"

text \<open>
  The signing method a header names; \<open>None\<close> when the header names no algorithm or one
  the library does not know.
\<close>

definition header_method :: "string option \<Rightarrow> signing_method option" where
  "header_method alg = (case alg of None \<Rightarrow> None | Some name \<Rightarrow> GetSigningMethod name)"

text \<open>
  The hash of the HMAC method a header names; \<open>None\<close> when the header names no
  algorithm, an algorithm the library does not know, or one outside the HMAC family.
\<close>

definition hmac_hash :: "string option \<Rightarrow> hash option" where
  "hmac_hash alg =
     (case header_method alg of
        Some (SigningMethodHMAC h) \<Rightarrow> Some h
      | _ \<Rightarrow> None)"

text \<open>
  A stand-in for HMAC, used only to evaluate the functions on concrete inputs: the tag is
  the key.
\<close>

definition test_hmac :: "'c hmac" where
  "test_hmac h key signing_input = key"

text \<open>
  Claims as the two packages mint them for the identifiers of their tests, with the
  expiry and the issue time given in seconds.
\<close>

definition test_claims :: "int \<Rightarrow> int \<Rightarrow> Claims" where
  "test_claims exp_s iat_s =
     \<lparr>Issuer = [], Subject = [], Audience = [],
      ExpiresAt = Some (exp_s * Second), NotBefore = None,
      IssuedAt = Some (iat_s * Second), ID = [],
      Claims.AccountID = 123, Claims.LenderID = 456\<rparr>"

definition test_claims_UserID :: "int \<Rightarrow> int \<Rightarrow> Claims_UserID" where
  "test_claims_UserID exp_s iat_s =
     \<lparr>Issuer = [], Subject = [], Audience = [],
      ExpiresAt = Some (exp_s * Second), NotBefore = None,
      IssuedAt = Some (iat_s * Second), ID = [],
      UserID = 123\<rparr>"

section \<open>The password policy\<close>

text \<open>
  \<^verbatim>\<open>ValidatePassword\<close> of package utils (the second file under
  internal/database/database_test.go). \<^verbatim>\<open>len(password)\<close> is the number of bytes of the
  string. The regular expressions \<^verbatim>\<open>[A-Z]\<close> and \<^verbatim>\<open>[0-9]\<close> match a string when
  one of its characters is in the range; these characters are single bytes, and no byte of
  a longer UTF-8 sequence is in either range, so the match is a test on the bytes. A nil
  error is \<open>None\<close>, an error of \<^verbatim>\<open>errors.New\<close> is its message.
\<close>

definition isUpper :: "char \<Rightarrow> bool" where
  "isUpper c = (c \<in> set ''ABCDEFGHIJKLMNOPQRSTUVWXYZ'')"

definition isDigit :: "char \<Rightarrow> bool" where
  "isDigit c = (c \<in> set ''0123456789'')"

definition ValidatePassword :: "string \<Rightarrow> string option" where
  "ValidatePassword password =
     (if length password < 8 then Some ''password must be at least 8 characters long''
      else if \<not> list_ex isUpper password
        then Some ''password must contain at least one uppercase letter''
      else if \<not> list_ex isDigit password
        then Some ''password must contain at least one number''
      else None)"


section \<open>Properties of the credential store\<close>

subsection \<open>Generated keys\<close>

lemma fold_max_ge: "s \<le> fold max ids (s::int)"
proof (induction ids arbitrary: s)
  case Nil then show ?case by simp
next
  case (Cons x xs)
  have "s \<le> max x s" by simp
  also have "\<dots> \<le> fold max xs (max x s)" by (rule Cons.IH)
  finally show ?case by simp
qed

lemma fold_max_mem: "i \<in> set ids \<Longrightarrow> i \<le> fold max ids (s::int)"
proof (induction ids arbitrary: s)
  case Nil then show ?case by simp
next
  case (Cons x xs)
  show ?case
  proof (cases "i = x")
    case True
    have "max x s \<le> fold max xs (max x s)" by (rule fold_max_ge)
    with True show ?thesis by simp
  next
    case False
    with Cons show ?thesis by simp
  qed
qed

lemma next_rowid_gt_seq: "s < next_rowid s ids"
  by (simp add: next_rowid_def)

lemma next_rowid_gt_mem:
  assumes "i \<in> set ids"
  shows "i < next_rowid s ids"
proof (cases ids)
  case Nil
  with assms show ?thesis by simp
next
  case (Cons x rest)
  have "i \<le> fold max rest x"
  proof (cases "i = x")
    case True
    then show ?thesis by (simp add: fold_max_ge)
  next
    case False
    with assms Cons have "i \<in> set rest" by simp
    then show ?thesis by (rule fold_max_mem)
  qed
  with Cons show ?thesis by (simp add: next_rowid_def)
qed

lemma insert_Lender_Inr:
  "insert_Lender bn ph em r c u d = Inr (i, d') \<Longrightarrow>
     i = next_rowid (seq_Lenders d) (map Lender.LenderID (Lenders d)) \<and>
     em \<notin> set (map Email (Lenders d)) \<and> 0 \<le> r \<and> r \<le> 100 \<and> i \<le> max_int64 \<and>
     d' = d\<lparr>Lenders := Lenders d @
                  [\<lparr>Lender.LenderID = i, BusinessName = bn, PhoneNumber = ph,
                    Email = em, InterestRatePercent = r,
                    Lender.CreatedAt = c, Lender.UpdatedAt = u,
                    IsActive = True\<rparr>],
                seq_Lenders := i\<rparr>"
  by (auto simp: insert_Lender_def Let_def split: if_splits)

lemma insert_Account_Inr:
  "insert_Account lid un pw c u d = Inr (i, d') \<Longrightarrow>
     i = next_rowid (seq_Accounts d) (map Account.AccountID (Accounts d)) \<and>
     un \<notin> set (map Username (Accounts d)) \<and> i \<le> max_int64 \<and>
     d' = d\<lparr>Accounts := Accounts d @
                  [\<lparr>Account.AccountID = i, Account.LenderID = lid, Username = un,
                    PasswordHash = pw, Account.CreatedAt = c,
                    Account.UpdatedAt = u, LastLogin = None, IsLocked = False\<rparr>],
                seq_Accounts := i\<rparr>"
  by (auto simp: insert_Account_def Let_def split: if_splits)

lemma CreateLenderAndAccount_cases:
  assumes "CreateLenderAndAccount fails now bn em ph un pw r d = ((aid, err), d')"
  shows "(err \<noteq> None \<and> d' = d) \<or>
         (err = None \<and>
          (\<exists>lid tx. insert_Lender bn ph em r now now d = Inr (lid, tx) \<and>
                    insert_Account lid un pw now now tx = Inr (aid, d')))"
  using assms unfolding CreateLenderAndAccount_def
  by (auto split: option.splits sum.splits prod.splits)

subsection \<open>The onboarding transaction is all or nothing\<close>

text \<open>
  Claim C1. Whatever the arguments, the store and the failures of the driver: when
  \<^verbatim>\<open>CreateLenderAndAccount\<close> returns an error, the store is exactly the store before
  the call (no lender row, no account row and no key counter of this call remains); an
  email or a username already in use makes the call fail; and when it returns no error,
  the identifier it returns is a new one, the \<^verbatim>\<open>Accounts\<close> table has gained exactly
  the account row with this identifier, the given username and password hash, and the
  \<^verbatim>\<open>Lenders\<close> table exactly the lender row that account refers to, with the given
  business name, phone, email and rate.
\<close>

theorem CreateLenderAndAccount_all_or_nothing:
  assumes run: "CreateLenderAndAccount fails now bn em ph un pw r d = ((aid, err), d')"
  shows "(err \<noteq> None \<longrightarrow> d' = d) \<and>
         (em \<in> set (map Email (Lenders d)) \<or> un \<in> set (map Username (Accounts d))
            \<longrightarrow> err \<noteq> None \<and> d' = d) \<and>
         (err = None \<longrightarrow>
            (\<exists>l a. Lenders d' = Lenders d @ [l] \<and> Accounts d' = Accounts d @ [a] \<and>
               Account.AccountID a = aid \<and> aid \<notin> set (map Account.AccountID (Accounts d)) \<and>
               Username a = un \<and> PasswordHash a = pw \<and>
               Account.LenderID a = Lender.LenderID l \<and>
               Lender.LenderID l \<notin> set (map Lender.LenderID (Lenders d)) \<and>
               Email l = em \<and> BusinessName l = bn \<and> PhoneNumber l = ph \<and>
               InterestRatePercent l = r))"
proof -
  from CreateLenderAndAccount_cases[OF run]
  consider (failed) "err \<noteq> None" "d' = d"
    | (committed) lid tx where "err = None"
        "insert_Lender bn ph em r now now d = Inr (lid, tx)"
        "insert_Account lid un pw now now tx = Inr (aid, d')"
    by blast
  then show ?thesis
  proof cases
    case failed
    then show ?thesis by simp
  next
    case committed
    note L = insert_Lender_Inr[OF committed(2)]
    note A = insert_Account_Inr[OF committed(3)]
    from L have accs: "Accounts tx = Accounts d" "seq_Accounts tx = seq_Accounts d"
      by simp_all
    have fresh_l: "lid \<notin> set (map Lender.LenderID (Lenders d))"
      using L next_rowid_gt_mem[of lid "map Lender.LenderID (Lenders d)" "seq_Lenders d"]
      by auto
    have fresh_a: "aid \<notin> set (map Account.AccountID (Accounts d))"
      using A accs next_rowid_gt_mem[of aid "map Account.AccountID (Accounts d)" "seq_Accounts d"]
      by auto
    have no_dup:
      "\<not> (em \<in> set (map Email (Lenders d)) \<or> un \<in> set (map Username (Accounts d)))"
      using L A accs by simp
    have rows: "\<exists>l a. Lenders d' = Lenders d @ [l] \<and> Accounts d' = Accounts d @ [a] \<and>
               Account.AccountID a = aid \<and> Username a = un \<and> PasswordHash a = pw \<and>
               Account.LenderID a = Lender.LenderID l \<and> Lender.LenderID l = lid \<and>
               Email l = em \<and> BusinessName l = bn \<and> PhoneNumber l = ph \<and>
               InterestRatePercent l = r"
      using L A by simp
    from committed(1) no_dup rows fresh_l fresh_a show ?thesis by auto
  qed
qed

text \<open>
  The two calls of the repository's test: the first creates lender 1 and account 1 in the
  empty store; the second, with the same username and another email, fails on the
  \<^verbatim>\<open>Accounts\<close> insertion and leaves no lender with its email.
\<close>

theorem CreateLenderAndAccount_all_or_nothing_witness:
  "CreateLenderAndAccount no_faults 1000 ''Lender Business'' ''lender@example.com''
      ''123-456-7890'' ''lenderuser'' ''hashedpassword'' 5 empty_db
     = ((1, None), lenderuser_db) \<and>
   Lenders lenderuser_db = Lenders empty_db @ [hd (Lenders lenderuser_db)] \<and>
   CreateLenderAndAccount no_faults 2000 ''Another Business'' ''another@example.com''
      ''987-654-3210'' ''lenderuser'' ''anotherhash'' 6 lenderuser_db
     = ((0, Some (DriverError ''UNIQUE constraint failed: Accounts.Username'')),
        lenderuser_db) \<and>
   ''another@example.com'' \<notin> set (map Email (Lenders lenderuser_db))"
proof -
  have first: "CreateLenderAndAccount no_faults 1000 ''Lender Business''
      ''lender@example.com'' ''123-456-7890'' ''lenderuser'' ''hashedpassword'' 5 empty_db
     = ((1, None), lenderuser_db)"
    by (simp add: CreateLenderAndAccount_def no_faults_def insert_Lender_def
        insert_Account_def next_rowid_def max_int64_def empty_db_def lenderuser_db_def)
  have second: "CreateLenderAndAccount no_faults 2000 ''Another Business''
      ''another@example.com'' ''987-654-3210'' ''lenderuser'' ''anotherhash'' 6 lenderuser_db
     = ((0, Some (DriverError ''UNIQUE constraint failed: Accounts.Username'')),
        lenderuser_db)"
    by (simp add: CreateLenderAndAccount_def no_faults_def insert_Lender_def
        insert_Account_def next_rowid_def max_int64_def lenderuser_db_def)
  from CreateLenderAndAccount_all_or_nothing[OF first]
    CreateLenderAndAccount_all_or_nothing[OF second] first second
  show ?thesis
    by (simp add: empty_db_def lenderuser_db_def)
qed

subsection \<open>The lookups and their sentinels\<close>

lemma find_None_map: "x \<notin> set (map f rows) \<Longrightarrow> find (\<lambda>r. f r = x) rows = None"
  by (induction rows) auto

lemma find_Some_map: "x \<in> set (map f rows) \<Longrightarrow> \<exists>r \<in> set rows. f r = x \<and> find (\<lambda>r. f r = x) rows = Some r"
  by (induction rows) auto

lemma lookups_not_found_aux:
  "fails QueryRow_Accounts = None \<Longrightarrow> accountID \<notin> set (map Account.AccountID (Accounts d)) \<Longrightarrow>
     GetAccountByID fails accountID d = (None, Some ErrAccountNotFound)"
  by (simp add: GetAccountByID_def QueryRow_Scan_def find_None_map)

text \<open>
  Claim C6. When the driver answers the query on \<^verbatim>\<open>Accounts\<close>: for every username that
  no account row has, \<^verbatim>\<open>GetAccountByUsername\<close> returns a nil account and the sentinel
  \<^verbatim>\<open>ErrAccountNotFound\<close>; for every identifier that no account row has, so do
  \<^verbatim>\<open>GetAccountByID\<close> and \<^verbatim>\<open>GetLenderByAccountID\<close>; and when the account exists,
  the driver answers the query on \<^verbatim>\<open>Lenders\<close> and no lender row has the identifier the
  account refers to, \<^verbatim>\<open>GetLenderByAccountID\<close> returns a nil lender and the sentinel
  \<^verbatim>\<open>ErrLenderNotFound\<close>. The two sentinels differ from each other and from every
  error of the driver. (A failure of the driver itself is returned as it is, whatever the
  rows: that is the other branch of the source.)
\<close>

theorem lookups_not_found:
  assumes accounts_answer: "fails QueryRow_Accounts = None"
  shows "(username \<notin> set (map Username (Accounts d)) \<longrightarrow>
            GetAccountByUsername fails username d = (None, Some ErrAccountNotFound)) \<and>
         (accountID \<notin> set (map Account.AccountID (Accounts d)) \<longrightarrow>
            GetAccountByID fails accountID d = (None, Some ErrAccountNotFound) \<and>
            GetLenderByAccountID fails accountID d = (None, Some ErrAccountNotFound)) \<and>
         (fails QueryRow_Lenders = None \<and>
          accountID \<in> set (map Account.AccountID (Accounts d)) \<and>
          (\<forall>a \<in> set (Accounts d). Account.AccountID a = accountID \<longrightarrow>
             Account.LenderID a \<notin> set (map Lender.LenderID (Lenders d))) \<longrightarrow>
            GetLenderByAccountID fails accountID d = (None, Some ErrLenderNotFound)) \<and>
         ErrAccountNotFound \<noteq> ErrLenderNotFound \<and>
         (\<forall>msg. ErrAccountNotFound \<noteq> DriverError msg \<and> ErrLenderNotFound \<noteq> DriverError msg)"
proof (intro conjI impI)
  assume "username \<notin> set (map Username (Accounts d))"
  then show "GetAccountByUsername fails username d = (None, Some ErrAccountNotFound)"
    using accounts_answer
    by (simp add: GetAccountByUsername_def QueryRow_Scan_def find_None_map)
next
  assume "accountID \<notin> set (map Account.AccountID (Accounts d))"
  then show "GetAccountByID fails accountID d = (None, Some ErrAccountNotFound)"
    using accounts_answer
    by (simp add: GetAccountByID_def QueryRow_Scan_def find_None_map)
next
  assume "accountID \<notin> set (map Account.AccountID (Accounts d))"
  then show "GetLenderByAccountID fails accountID d = (None, Some ErrAccountNotFound)"
    using accounts_answer
    by (simp add: GetLenderByAccountID_def QueryRow_Scan_def find_None_map)
next
  assume h: "fails QueryRow_Lenders = None \<and>
          accountID \<in> set (map Account.AccountID (Accounts d)) \<and>
          (\<forall>a \<in> set (Accounts d). Account.AccountID a = accountID \<longrightarrow>
             Account.LenderID a \<notin> set (map Lender.LenderID (Lenders d)))"
  then obtain a where a: "a \<in> set (Accounts d)" "Account.AccountID a = accountID"
    "find (\<lambda>r. Account.AccountID r = accountID) (Accounts d) = Some a"
    using find_Some_map[of accountID Account.AccountID "Accounts d"] by blast
  with h have "Account.LenderID a \<notin> set (map Lender.LenderID (Lenders d))" by blast
  then have "find (\<lambda>l. Lender.LenderID l = Account.LenderID a) (Lenders d) = None"
    by (rule find_None_map)
  with a h accounts_answer
  show "GetLenderByAccountID fails accountID d = (None, Some ErrLenderNotFound)"
    by (simp add: GetLenderByAccountID_def QueryRow_Scan_def)
qed simp_all

text \<open>
  The lookups of the repository's tests (\<open>nonexistent\<close>, 99999) on the store with one
  account, and the lookup of the lender of account 1 once its lender row is gone.
\<close>

theorem lookups_not_found_witness:
  "GetAccountByUsername no_faults ''nonexistent'' lenderuser_db = (None, Some ErrAccountNotFound) \<and>
   GetAccountByID no_faults 99999 lenderuser_db = (None, Some ErrAccountNotFound) \<and>
   GetLenderByAccountID no_faults 99999 lenderuser_db = (None, Some ErrAccountNotFound) \<and>
   GetLenderByAccountID no_faults 1 orphan_db = (None, Some ErrLenderNotFound)"
proof -
  have nf: "no_faults QueryRow_Accounts = None" "no_faults QueryRow_Lenders = None"
    by (simp_all add: no_faults_def)
  from lookups_not_found[where fails = no_faults and username = "''nonexistent''"
      and d = lenderuser_db and accountID = 99999, OF nf(1)]
    lookups_not_found[where fails = no_faults and username = "''nonexistent''"
      and d = orphan_db and accountID = 1, OF nf(1)] nf(2)
  show ?thesis
    by (simp add: lenderuser_db_def orphan_db_def)
qed

subsection \<open>UpdateLastLogin\<close>

lemma trigger_idem:
  "update_accounts_updated_at ts i (update_accounts_updated_at ts i rows) =
     update_accounts_updated_at ts i rows"
  by (simp add: update_accounts_updated_at_def)

lemma fold_trigger:
  "\<forall>m \<in> set ms. Account.AccountID m = i \<Longrightarrow>
     fold (\<lambda>old. update_accounts_updated_at ts (Account.AccountID old)) ms rows =
       (if ms = [] then rows else update_accounts_updated_at ts i rows)"
proof (induction ms arbitrary: rows)
  case Nil
  then show ?case by simp
next
  case (Cons m ms)
  then show ?case by (simp add: trigger_idem)
qed

lemma map_unmatched:
  "filter (\<lambda>a. Account.AccountID a = i) rows = [] \<Longrightarrow>
     map (\<lambda>a. if Account.AccountID a = i then f a else a) rows = rows"
  by (induction rows) (auto split: if_splits)

lemma update_Last_Login_eq:
  "update_Last_Login now ts i rows =
     map (\<lambda>a. if Account.AccountID a = i
              then a\<lparr>LastLogin := Some now, Account.UpdatedAt := ts\<rparr> else a) rows"
proof (cases "filter (\<lambda>a. Account.AccountID a = i) rows = []")
  case True
  then show ?thesis
    by (simp add: update_Last_Login_def map_unmatched)
next
  case False
  have "\<forall>m \<in> set (filter (\<lambda>a. Account.AccountID a = i) rows). Account.AccountID m = i"
    by simp
  from fold_trigger[OF this] False show ?thesis
    by (simp add: update_Last_Login_def update_accounts_updated_at_def)
qed

lemma UpdateLastLogin_eq:
  assumes "fails Prepare_UpdateLastLogin = None" and "fails Exec_UpdateLastLogin = None"
  shows "UpdateLastLogin fails now ts i d =
           (None, d\<lparr>Accounts := map (\<lambda>a. if Account.AccountID a = i
              then a\<lparr>LastLogin := Some now, Account.UpdatedAt := ts\<rparr> else a) (Accounts d)\<rparr>)"
  using assms by (simp add: UpdateLastLogin_def update_Last_Login_eq)

lemma map_ids_unchanged:
  "map Account.AccountID (map (\<lambda>a. if Account.AccountID a = i
              then a\<lparr>LastLogin := x, Account.UpdatedAt := ts\<rparr> else a) rows) =
   map Account.AccountID rows"
  by (induction rows) auto

lemma find_updated:
  "find (\<lambda>r. Account.AccountID r = i) (map (\<lambda>a. if Account.AccountID a = i then f a else a) rows)
     = map_option f (find (\<lambda>r. Account.AccountID r = i) rows)"
  if "\<And>a. Account.AccountID (f a) = Account.AccountID a"
  using that by (induction rows) auto

lemma nth_updated:
  "i < length rows \<Longrightarrow>
   map (\<lambda>a. if Account.AccountID a = k then f a else a) rows ! i =
     (if Account.AccountID (rows ! i) = k then f (rows ! i) else rows ! i)"
  by simp

text \<open>
  Claim C7. When the driver performs \<^verbatim>\<open>Prepare\<close> and \<^verbatim>\<open>Exec\<close>,
  \<^verbatim>\<open>UpdateLastLogin\<close> returns no error, whether or not a row has the identifier. When
  no row has it, the store is unchanged. Otherwise the rows keep their identifiers, every
  row with the given identifier has the clock reading \<open>now\<close> as its last login, and a
  following \<^verbatim>\<open>GetAccountByID\<close> returns an account with that last login.
\<close>

theorem UpdateLastLogin_best_effort:
  assumes prep: "fails Prepare_UpdateLastLogin = None"
    and exec: "fails Exec_UpdateLastLogin = None"
  shows "\<exists>d'. UpdateLastLogin fails now ts accountID d = (None, d') \<and>
           (accountID \<notin> set (map Account.AccountID (Accounts d)) \<longrightarrow> d' = d) \<and>
           map Account.AccountID (Accounts d') = map Account.AccountID (Accounts d) \<and>
           (\<forall>a \<in> set (Accounts d'). Account.AccountID a = accountID \<longrightarrow> LastLogin a = Some now) \<and>
           (accountID \<in> set (map Account.AccountID (Accounts d)) \<and> fails QueryRow_Accounts = None
              \<longrightarrow> (\<exists>a. GetAccountByID fails accountID d' = (Some a, None) \<and>
                       LastLogin a = Some now))"
proof -
  define f :: "Account \<Rightarrow> Account"
    where "f = (\<lambda>a. a\<lparr>LastLogin := Some now, Account.UpdatedAt := ts\<rparr>)"
  define rows where "rows = map (\<lambda>a. if Account.AccountID a = accountID then f a else a) (Accounts d)"
  define d' where "d' = d\<lparr>Accounts := rows\<rparr>"
  have f_id: "Account.AccountID (f a) = Account.AccountID a" for a
    by (simp add: f_def)
  have f_login: "LastLogin (f a) = Some now" for a
    by (simp add: f_def)
  have accs: "Accounts d' = rows"
    by (simp add: d'_def)
  have run: "UpdateLastLogin fails now ts accountID d = (None, d')"
    unfolding d'_def rows_def f_def by (rule UpdateLastLogin_eq[OF prep exec])
  have miss: "accountID \<notin> set (map Account.AccountID (Accounts d)) \<longrightarrow> d' = d"
  proof
    assume "accountID \<notin> set (map Account.AccountID (Accounts d))"
    then have "filter (\<lambda>a. Account.AccountID a = accountID) (Accounts d) = []"
      by (auto simp: filter_empty_conv)
    then have "rows = Accounts d"
      unfolding rows_def by (rule map_unmatched)
    then show "d' = d" by (simp add: d'_def)
  qed
  have ids: "map Account.AccountID (Accounts d') = map Account.AccountID (Accounts d)"
    unfolding accs rows_def f_def by (rule map_ids_unchanged)
  have login: "\<forall>a \<in> set (Accounts d'). Account.AccountID a = accountID \<longrightarrow> LastLogin a = Some now"
    unfolding accs rows_def using f_login f_id by (auto split: if_splits)
  have read: "accountID \<in> set (map Account.AccountID (Accounts d)) \<and> fails QueryRow_Accounts = None
              \<longrightarrow> (\<exists>a. GetAccountByID fails accountID d' = (Some a, None) \<and>
                       LastLogin a = Some now)"
  proof
    assume h: "accountID \<in> set (map Account.AccountID (Accounts d)) \<and> fails QueryRow_Accounts = None"
    then obtain a where a: "find (\<lambda>r. Account.AccountID r = accountID) (Accounts d) = Some a"
      using find_Some_map[of accountID Account.AccountID "Accounts d"] by blast
    have "find (\<lambda>r. Account.AccountID r = accountID) rows = Some (f a)"
      unfolding rows_def using find_updated[of f accountID "Accounts d", OF f_id] a by simp
    with h have "GetAccountByID fails accountID d' = (Some (f a), None)"
      by (simp add: GetAccountByID_def QueryRow_Scan_def accs)
    with f_login show "\<exists>a. GetAccountByID fails accountID d' = (Some a, None) \<and> LastLogin a = Some now"
      by blast
  qed
  show ?thesis
    by (rule exI[of _ d']) (intro conjI run miss ids login read)
qed

text \<open>
  The two calls of the repository's test \<^verbatim>\<open>TestUpdateLastLogin\<close>: identifier 99999
  changes nothing and is no error; identifier 1 sets the last login.
\<close>

theorem UpdateLastLogin_best_effort_witness:
  "UpdateLastLogin no_faults 5000 4000 99999 lenderuser_db = (None, lenderuser_db) \<and>
   fst (UpdateLastLogin no_faults 5000 4000 1 lenderuser_db) = None \<and>
   map LastLogin (Accounts (snd (UpdateLastLogin no_faults 5000 4000 1 lenderuser_db)))
     = [Some 5000]"
proof -
  have nf: "no_faults Prepare_UpdateLastLogin = None" "no_faults Exec_UpdateLastLogin = None"
    by (simp_all add: no_faults_def)
  from UpdateLastLogin_best_effort[OF nf, of 5000 4000 99999 lenderuser_db]
  obtain d' where miss: "UpdateLastLogin no_faults 5000 4000 99999 lenderuser_db = (None, d')"
    "99999 \<notin> set (map Account.AccountID (Accounts lenderuser_db)) \<longrightarrow> d' = lenderuser_db"
    by blast
  have "99999 \<notin> set (map Account.AccountID (Accounts lenderuser_db))"
    by (simp add: lenderuser_db_def)
  with miss have first: "UpdateLastLogin no_faults 5000 4000 99999 lenderuser_db = (None, lenderuser_db)"
    by simp
  from UpdateLastLogin_best_effort[OF nf, of 5000 4000 1 lenderuser_db]
  obtain d1 where hit: "UpdateLastLogin no_faults 5000 4000 1 lenderuser_db = (None, d1)"
    by blast
  have ev: "map LastLogin (Accounts (snd (UpdateLastLogin no_faults 5000 4000 1 lenderuser_db)))
     = [Some 5000]"
    by (simp add: UpdateLastLogin_def no_faults_def update_Last_Login_def
        update_accounts_updated_at_def lenderuser_db_def)
  from first hit ev show ?thesis by simp
qed

text \<open>
  Claim C9. A successful \<^verbatim>\<open>UpdateLastLogin\<close> names \<^verbatim>\<open>Last_Login\<close> only, and the
  trigger sets \<^verbatim>\<open>Updated_At\<close> of each row it changed to \<^verbatim>\<open>CURRENT_TIMESTAMP\<close>, a
  reading of the store's clock that the caller does not supply. Every account row keeps its
  identifier, lender identifier, username, password hash, creation time and locked flag; a
  row with another identifier is unchanged; the lenders and the key counters are
  unchanged. The other writes of the repository, the two insertions of
  \<^verbatim>\<open>CreateLenderAndAccount\<close>, leave the new rows with \<^verbatim>\<open>Updated_At\<close> at the time of
  the call.
\<close>

theorem writes_maintain_Updated_At:
  assumes prep: "fails Prepare_UpdateLastLogin = None"
    and exec: "fails Exec_UpdateLastLogin = None"
  shows "\<exists>d'. UpdateLastLogin fails now current_timestamp accountID d = (None, d') \<and>
           Lenders d' = Lenders d \<and> seq_Lenders d' = seq_Lenders d \<and>
           seq_Accounts d' = seq_Accounts d \<and>
           length (Accounts d') = length (Accounts d) \<and>
           (\<forall>i < length (Accounts d).
              Account.AccountID (Accounts d' ! i) = Account.AccountID (Accounts d ! i) \<and>
              Account.LenderID (Accounts d' ! i) = Account.LenderID (Accounts d ! i) \<and>
              Username (Accounts d' ! i) = Username (Accounts d ! i) \<and>
              PasswordHash (Accounts d' ! i) = PasswordHash (Accounts d ! i) \<and>
              Account.CreatedAt (Accounts d' ! i) = Account.CreatedAt (Accounts d ! i) \<and>
              IsLocked (Accounts d' ! i) = IsLocked (Accounts d ! i) \<and>
              (Account.AccountID (Accounts d ! i) = accountID \<longrightarrow>
                 Account.UpdatedAt (Accounts d' ! i) = current_timestamp \<and>
                 LastLogin (Accounts d' ! i) = Some now) \<and>
              (Account.AccountID (Accounts d ! i) \<noteq> accountID \<longrightarrow>
                 Accounts d' ! i = Accounts d ! i)) \<and>
           (CreateLenderAndAccount fails' t bn em ph un pw r d = ((aid, None), d2) \<longrightarrow>
              Lender.UpdatedAt (last (Lenders d2)) = t \<and>
              Account.UpdatedAt (last (Accounts d2)) = t)"
proof -
  define f :: "Account \<Rightarrow> Account"
    where "f = (\<lambda>a. a\<lparr>LastLogin := Some now, Account.UpdatedAt := current_timestamp\<rparr>)"
  define rows where "rows = map (\<lambda>a. if Account.AccountID a = accountID then f a else a) (Accounts d)"
  define d' where "d' = d\<lparr>Accounts := rows\<rparr>"
  have run: "UpdateLastLogin fails now current_timestamp accountID d = (None, d')"
    unfolding d'_def rows_def f_def by (rule UpdateLastLogin_eq[OF prep exec])
  have accs: "Accounts d' = rows" and others: "Lenders d' = Lenders d"
    "seq_Lenders d' = seq_Lenders d" "seq_Accounts d' = seq_Accounts d"
    by (simp_all add: d'_def)
  have len: "length (Accounts d') = length (Accounts d)"
    by (simp add: accs rows_def)
  have row: "Account.AccountID (Accounts d' ! i) = Account.AccountID (Accounts d ! i) \<and>
              Account.LenderID (Accounts d' ! i) = Account.LenderID (Accounts d ! i) \<and>
              Username (Accounts d' ! i) = Username (Accounts d ! i) \<and>
              PasswordHash (Accounts d' ! i) = PasswordHash (Accounts d ! i) \<and>
              Account.CreatedAt (Accounts d' ! i) = Account.CreatedAt (Accounts d ! i) \<and>
              IsLocked (Accounts d' ! i) = IsLocked (Accounts d ! i) \<and>
              (Account.AccountID (Accounts d ! i) = accountID \<longrightarrow>
                 Account.UpdatedAt (Accounts d' ! i) = current_timestamp \<and>
                 LastLogin (Accounts d' ! i) = Some now) \<and>
              (Account.AccountID (Accounts d ! i) \<noteq> accountID \<longrightarrow>
                 Accounts d' ! i = Accounts d ! i)"
    if "i < length (Accounts d)" for i
  proof -
    have "Accounts d' ! i =
        (if Account.AccountID (Accounts d ! i) = accountID then f (Accounts d ! i) else Accounts d ! i)"
      unfolding accs rows_def using that by (rule nth_updated)
    then show ?thesis by (simp add: f_def)
  qed
  have ins: "CreateLenderAndAccount fails' t bn em ph un pw r d = ((aid, None), d2) \<longrightarrow>
              Lender.UpdatedAt (last (Lenders d2)) = t \<and>
              Account.UpdatedAt (last (Accounts d2)) = t"
  proof
    assume c: "CreateLenderAndAccount fails' t bn em ph un pw r d = ((aid, None), d2)"
    from CreateLenderAndAccount_cases[OF c] obtain lid tx where
      L: "insert_Lender bn ph em r t t d = Inr (lid, tx)" and
      A: "insert_Account lid un pw t t tx = Inr (aid, d2)"
      by auto
    from insert_Lender_Inr[OF L] insert_Account_Inr[OF A]
    show "Lender.UpdatedAt (last (Lenders d2)) = t \<and> Account.UpdatedAt (last (Accounts d2)) = t"
      by simp
  qed
  from run others len row ins show ?thesis
    by (intro exI[of _ d'] conjI allI impI) blast+
qed

text \<open>Account 1 after a login at 5000, the store's clock reading 4000.\<close>

theorem writes_maintain_Updated_At_witness:
  "UpdateLastLogin no_faults 5000 4000 1 lenderuser_db =
     (None, lenderuser_db\<lparr>Accounts :=
        [\<lparr>Account.AccountID = 1, Account.LenderID = 1, Username = ''lenderuser'',
          PasswordHash = ''hashedpassword'', Account.CreatedAt = 1000,
          Account.UpdatedAt = 4000, LastLogin = Some 5000, IsLocked = False\<rparr>]\<rparr>) \<and>
   Account.UpdatedAt (Accounts (snd (UpdateLastLogin no_faults 5000 4000 1 lenderuser_db)) ! 0)
     = 4000"
proof -
  have nf: "no_faults Prepare_UpdateLastLogin = None" "no_faults Exec_UpdateLastLogin = None"
    by (simp_all add: no_faults_def)
  from writes_maintain_Updated_At[OF nf, where now = 5000 and current_timestamp = 4000
      and accountID = 1 and d = lenderuser_db and fails' = no_faults and t = 1000
      and bn = "[]" and em = "[]" and ph = "[]" and un = "[]" and pw = "[]" and r = 0
      and aid = 0 and ?d2.0 = lenderuser_db]
  obtain d' where run: "UpdateLastLogin no_faults 5000 4000 1 lenderuser_db = (None, d')"
    and row: "\<forall>i < length (Accounts lenderuser_db).
        Account.AccountID (Accounts lenderuser_db ! i) = 1 \<longrightarrow>
          Account.UpdatedAt (Accounts d' ! i) = 4000"
    by blast
  have "Accounts lenderuser_db \<noteq> []" "Account.AccountID (Accounts lenderuser_db ! 0) = 1"
    by (simp_all add: lenderuser_db_def)
  with row have stamp: "Account.UpdatedAt (Accounts d' ! 0) = 4000"
    by simp
  have ev: "UpdateLastLogin no_faults 5000 4000 1 lenderuser_db =
     (None, lenderuser_db\<lparr>Accounts :=
        [\<lparr>Account.AccountID = 1, Account.LenderID = 1, Username = ''lenderuser'',
          PasswordHash = ''hashedpassword'', Account.CreatedAt = 1000,
          Account.UpdatedAt = 4000, LastLogin = Some 5000, IsLocked = False\<rparr>]\<rparr>)"
    by (simp add: UpdateLastLogin_def no_faults_def update_Last_Login_def
        update_accounts_updated_at_def lenderuser_db_def)
  from run stamp have "Account.UpdatedAt
      (Accounts (snd (UpdateLastLogin no_faults 5000 4000 1 lenderuser_db)) ! 0) = 4000"
    by simp
  with ev show ?thesis by (rule conjI)
qed

subsection \<open>A failed commit\<close>

text \<open>
  Claim C10. When both insertions have succeeded and only \<^verbatim>\<open>tx.Commit()\<close> fails,
  \<^verbatim>\<open>CreateLenderAndAccount\<close> returns the key the store gave the account together with
  the commit's error. The key is not zero (the key counter of a table is never negative),
  the store is the store before the call, and no account has that key:
  \<^verbatim>\<open>GetAccountByID\<close> on it answers \<^verbatim>\<open>ErrAccountNotFound\<close>.
\<close>

theorem CreateLenderAndAccount_commit_failure:
  assumes others: "\<forall>c. c \<noteq> Commit \<longrightarrow> fails c = None"
    and commit: "fails Commit = Some e"
    and lender: "insert_Lender bn ph em r now now d = Inr (lenderID, tx)"
    and account: "insert_Account lenderID un pw now now tx = Inr (accountID, tx')"
    and counter: "0 \<le> seq_Accounts d"
  shows "CreateLenderAndAccount fails now bn em ph un pw r d =
           ((accountID, Some (DriverError e)), d) \<and>
         accountID \<noteq> 0 \<and>
         accountID \<notin> set (map Account.AccountID (Accounts d)) \<and>
         GetAccountByID no_faults accountID d = (None, Some ErrAccountNotFound)"
proof -
  from others have nf: "fails Begin = None" "fails Prepare_InsertLender = None"
    "fails Exec_InsertLender = None" "fails LastInsertId_Lender = None"
    "fails Prepare_InsertAccount = None" "fails Exec_InsertAccount = None"
    "fails LastInsertId_Account = None"
    by simp_all
  have run: "CreateLenderAndAccount fails now bn em ph un pw r d =
           ((accountID, Some (DriverError e)), d)"
    by (simp add: CreateLenderAndAccount_def nf commit lender account)
  note L = insert_Lender_Inr[OF lender]
  note A = insert_Account_Inr[OF account]
  from L have accs: "Accounts tx = Accounts d" "seq_Accounts tx = seq_Accounts d"
    by simp_all
  have key: "accountID = next_rowid (seq_Accounts d) (map Account.AccountID (Accounts d))"
    using A accs by simp
  have pos: "0 < accountID"
    using next_rowid_gt_seq[of "seq_Accounts d" "map Account.AccountID (Accounts d)"] counter
    unfolding key by simp
  have fresh: "accountID \<notin> set (map Account.AccountID (Accounts d))"
    using next_rowid_gt_mem[of accountID "map Account.AccountID (Accounts d)" "seq_Accounts d"] key
    by auto
  have nq: "no_faults QueryRow_Accounts = None"
    by (simp add: no_faults_def)
  have gone: "GetAccountByID no_faults accountID d = (None, Some ErrAccountNotFound)"
    by (rule lookups_not_found_aux[where fails = no_faults, OF nq fresh])
  from run pos fresh gone show ?thesis by simp
qed

text \<open>The first onboarding into the empty store, the commit failing.\<close>

theorem CreateLenderAndAccount_commit_failure_witness:
  "CreateLenderAndAccount commit_fails 1000 ''Lender Business'' ''lender@example.com''
      ''123-456-7890'' ''lenderuser'' ''hashedpassword'' 5 empty_db
     = ((1, Some (DriverError ''disk I/O error'')), empty_db) \<and>
   GetAccountByID no_faults 1 empty_db = (None, Some ErrAccountNotFound)"
proof -
  have others: "\<forall>c. c \<noteq> Commit \<longrightarrow> commit_fails c = None"
    and commit: "commit_fails Commit = Some ''disk I/O error''"
    by (simp_all add: commit_fails_def)
  have lender: "insert_Lender ''Lender Business'' ''123-456-7890'' ''lender@example.com'' 5
      1000 1000 empty_db = Inr (1, lenderuser_db\<lparr>Accounts := [], seq_Accounts := 0\<rparr>)"
    by (simp add: insert_Lender_def next_rowid_def max_int64_def empty_db_def
        lenderuser_db_def)
  have account: "insert_Account 1 ''lenderuser'' ''hashedpassword'' 1000 1000
      (lenderuser_db\<lparr>Accounts := [], seq_Accounts := 0\<rparr>) = Inr (1, lenderuser_db)"
    by (simp add: insert_Account_def next_rowid_def max_int64_def lenderuser_db_def)
  have counter: "0 \<le> seq_Accounts empty_db"
    by (simp add: empty_db_def)
  from CreateLenderAndAccount_commit_failure[OF others commit lender account counter]
  show ?thesis by simp
qed

section \<open>Properties of the token engine\<close>

subsection \<open>Seconds, durations and the stages of the parser\<close>

lemma Second_pos: "0 < Second" by (simp add: Second_def)

lemma NewNumericDate_le: "NewNumericDate t \<le> t"
  using Second_pos by (simp add: NewNumericDate_def)

lemma NewNumericDate_gt: "t - Second < NewNumericDate t"
proof -
  have "t mod Second < Second" using Second_pos by simp
  then show ?thesis by (simp add: NewNumericDate_def)
qed

lemma NewNumericDate_add: "NewNumericDate (t + k * Second) = NewNumericDate t + k * Second"
  by (simp add: NewNumericDate_def)

lemma AccessTokenDuration_eq: "AccessTokenDuration = 900 * Second"
  by (simp add: AccessTokenDuration_def Minute_def)

lemma RefreshTokenDuration_eq: "RefreshTokenDuration = 604800 * Second"
  by (simp add: RefreshTokenDuration_def Hour_def Minute_def)

lemma GetSigningMethod_HS256: "GetSigningMethod ''HS256'' = Some (SigningMethodHMAC SHA256)"
  by (simp add: GetSigningMethod_def signing_methods_def)

lemma Alg_HS256: "Alg (SigningMethodHMAC SHA256) = ''HS256''"
  by (simp add: Alg_def signing_methods_def)

lemma hmac_hash_HS256: "hmac_hash (Some ''HS256'') = Some SHA256"
  by (simp add: hmac_hash_def header_method_def GetSigningMethod_HS256)

lemma SignedString_HS256:
  "SignedString mac (SigningMethodHMAC SHA256) claims key =
     Inr (Encoded (Some ''HS256'') claims (Some (mac SHA256 key (Some ''HS256'', claims))))"
  by (simp add: SignedString_def Alg_HS256)

lemma keyFunc_hmac: "keyFunc key (SigningMethodHMAC h) = Inr key"
  by (simp add: keyFunc_def)

lemma keyFunc_other:
  "\<forall>h. sm \<noteq> SigningMethodHMAC h \<Longrightarrow> keyFunc key sm = Inl ''unexpected signing method''"
  by (cases sm) (simp_all add: keyFunc_def)

lemma hmac_hash_SomeD:
  assumes "hmac_hash alg = Some h"
  shows "\<exists>name. alg = Some name \<and> GetSigningMethod name = Some (SigningMethodHMAC h)"
proof -
  from assms obtain name where alg: "alg = Some name"
    by (cases alg) (simp_all add: hmac_hash_def header_method_def)
  with assms obtain sm where m: "GetSigningMethod name = Some sm"
    by (cases "GetSigningMethod name") (simp_all add: hmac_hash_def header_method_def)
  with assms alg have "sm = SigningMethodHMAC h"
    by (cases sm) (simp_all add: hmac_hash_def header_method_def)
  with alg m show ?thesis by simp
qed

lemma hmac_hash_NoneD:
  assumes "hmac_hash alg = None" and "alg = Some name" and "GetSigningMethod name = Some sm"
  shows "\<forall>h. sm \<noteq> SigningMethodHMAC h"
  using assms by (auto simp: hmac_hash_def header_method_def)

lemma ParseWithClaims_no_method:
  assumes "header_method alg = None"
  shows "ParseWithClaims release mac now leeway kf (Encoded alg claims segment) =
           Inl [ErrTokenUnverifiable]"
proof (cases alg)
  case None
  then show ?thesis by (simp add: ParseWithClaims_def)
next
  case (Some name)
  with assms have "GetSigningMethod name = None"
    by (simp add: header_method_def)
  with Some show ?thesis by (simp add: ParseWithClaims_def)
qed

lemma ParseWithClaims_not_hmac:
  assumes "hmac_hash alg = None"
  shows "ParseWithClaims release mac now leeway (keyFunc key) (Encoded alg claims (Some sig)) =
           Inl [ErrTokenUnverifiable]"
proof (cases "header_method alg")
  case None
  then show ?thesis by (rule ParseWithClaims_no_method)
next
  case (Some sm)
  then obtain name where alg: "alg = Some name" and m: "GetSigningMethod name = Some sm"
    by (cases alg) (simp_all add: header_method_def)
  from hmac_hash_NoneD[OF assms alg m]
  have k: "keyFunc key sm = Inl ''unexpected signing method''"
    by (rule keyFunc_other)
  show ?thesis
    by (cases release) (simp_all add: ParseWithClaims_def alg m k)
qed

lemma ParseWithClaims_not_hmac_undecodable:
  assumes "hmac_hash alg = None"
  shows "ParseWithClaims release mac now leeway (keyFunc key) (Encoded alg claims None) =
           Inl [ErrTokenUnverifiable] \<or>
         ParseWithClaims release mac now leeway (keyFunc key) (Encoded alg claims None) =
           Inl [ErrTokenMalformed]"
proof (cases "header_method alg")
  case None
  then show ?thesis by (simp add: ParseWithClaims_no_method)
next
  case (Some sm)
  then obtain name where alg: "alg = Some name" and m: "GetSigningMethod name = Some sm"
    by (cases alg) (simp_all add: header_method_def)
  from hmac_hash_NoneD[OF assms alg m]
  have k: "keyFunc key sm = Inl ''unexpected signing method''"
    by (rule keyFunc_other)
  show ?thesis
    by (cases release) (simp_all add: ParseWithClaims_def alg m k)
qed

lemma ParseWithClaims_hmac_undecodable:
  assumes "hmac_hash alg = Some h"
  shows "ParseWithClaims release mac now leeway (keyFunc key) (Encoded alg claims None) =
           Inl [ErrTokenMalformed]"
proof -
  from hmac_hash_SomeD[OF assms] obtain name where
    alg: "alg = Some name" and m: "GetSigningMethod name = Some (SigningMethodHMAC h)"
    by blast
  show ?thesis
    by (cases release) (simp_all add: ParseWithClaims_def alg m keyFunc_hmac)
qed

lemma ParseWithClaims_hmac:
  assumes "hmac_hash alg = Some h"
  shows "ParseWithClaims release mac now leeway (keyFunc key) (Encoded alg claims (Some sig)) =
       (if mac h key (alg, claims) \<noteq> sig then Inl [ErrTokenSignatureInvalid, ErrSignatureInvalid]
        else (case Validate now leeway claims of
                [] \<Rightarrow> Inr \<lparr>Method = SigningMethodHMAC h, Claims = claims, Signature = sig,
                          Valid = True\<rparr>
              | errs \<Rightarrow> Inl (ErrTokenInvalidClaims # errs)))"
proof -
  from hmac_hash_SomeD[OF assms] obtain name where
    alg: "alg = Some name" and m: "GetSigningMethod name = Some (SigningMethodHMAC h)"
    by blast
  show ?thesis
    by (cases release)
      (simp_all add: ParseWithClaims_def alg m keyFunc_hmac verify_and_validate_def Verify_def)
qed

lemma Validate_ok:
  "ExpiresAt claims = Some e \<Longrightarrow> NotBefore claims = None \<Longrightarrow> now < e + leeway \<Longrightarrow>
     Validate now leeway claims = []"
  by (simp add: Validate_def verifyExpiresAt_def verifyNotBefore_def)

lemma Validate_expired:
  "ExpiresAt claims = Some e \<Longrightarrow> e + leeway \<le> now \<Longrightarrow>
     \<exists>rest. Validate now leeway claims = ErrTokenExpired # rest"
  by (simp add: Validate_def verifyExpiresAt_def)

lemma Validate_valid:
  "(\<forall>e. ExpiresAt claims = Some e \<longrightarrow> now < e + leeway) \<Longrightarrow>
   (\<forall>n. NotBefore claims = Some n \<longrightarrow> n - leeway \<le> now) \<Longrightarrow>
     Validate now leeway claims = []"
  by (auto simp: Validate_def verifyExpiresAt_def verifyNotBefore_def split: option.splits)

lemma ParseWithClaims_signed:
  "ParseWithClaims release mac now leeway (keyFunc key)
       (Encoded (Some ''HS256'') claims (Some (mac SHA256 key (Some ''HS256'', claims)))) =
     (case Validate now leeway claims of
        [] \<Rightarrow> Inr \<lparr>Method = SigningMethodHMAC SHA256, Claims = claims,
                   Signature = mac SHA256 key (Some ''HS256'', claims), Valid = True\<rparr>
      | errs \<Rightarrow> Inl (ErrTokenInvalidClaims # errs))"
  by (simp add: ParseWithClaims_hmac[OF hmac_hash_HS256])

subsection \<open>The outcomes of validation, case by case\<close>

lemma Validate_expired_kind:
  assumes "ExpiresAt claims = Some e" and "e + leeway \<le> now"
  shows "\<exists>rest. Validate now leeway claims = ErrTokenExpired # rest \<and>
           kind_of (jwt_Error (ErrTokenInvalidClaims # ErrTokenExpired # rest)) = Expired"
proof -
  have "Validate now leeway claims = [ErrTokenExpired] \<or>
        Validate now leeway claims = [ErrTokenExpired, ErrTokenNotValidYet]"
    using assms by (simp add: Validate_def verifyExpiresAt_def)
  moreover have "kind_of (jwt_Error [ErrTokenInvalidClaims, ErrTokenExpired]) = Expired"
    "kind_of (jwt_Error [ErrTokenInvalidClaims, ErrTokenExpired, ErrTokenNotValidYet]) = Expired"
    by (simp_all add: kind_of_def errors_Is_def)
  ultimately show ?thesis by auto
qed

lemma ValidateToken_malformed:
  "ValidateToken release mac now (NotAToken s) secretKey = Inl (jwt_Error [ErrTokenMalformed])"
  by (simp add: ValidateToken_def ParseWithClaims_def)

lemma ValidateToken_undecodable:
  "hmac_hash alg = Some h \<Longrightarrow>
     ValidateToken release mac now (Encoded alg claims None) secretKey =
       Inl (jwt_Error [ErrTokenMalformed])"
  by (simp add: ValidateToken_def ParseWithClaims_hmac_undecodable)

lemma ValidateToken_no_method:
  "header_method alg = None \<Longrightarrow>
     ValidateToken release mac now (Encoded alg claims segment) secretKey =
       Inl (jwt_Error [ErrTokenUnverifiable])"
  by (simp add: ValidateToken_def ParseWithClaims_no_method)

lemma ValidateToken_not_hmac:
  "hmac_hash alg = None \<Longrightarrow>
     ValidateToken release mac now (Encoded alg claims (Some sig)) secretKey =
       Inl (jwt_Error [ErrTokenUnverifiable])"
  by (simp add: ValidateToken_def ParseWithClaims_not_hmac)

lemma ValidateToken_not_hmac_undecodable:
  assumes "hmac_hash alg = None"
  shows "ValidateToken release mac now (Encoded alg claims None) secretKey =
       Inl (jwt_Error [ErrTokenUnverifiable]) \<or>
     ValidateToken release mac now (Encoded alg claims None) secretKey =
       Inl (jwt_Error [ErrTokenMalformed])"
  using ParseWithClaims_not_hmac_undecodable[OF assms, of release mac now 0 secretKey claims]
  by (auto simp: ValidateToken_def)

lemma ValidateToken_signature:
  assumes "hmac_hash alg = Some h" and "mac h secretKey (alg, claims) \<noteq> sig"
  shows "ValidateToken release mac now (Encoded alg claims (Some sig)) secretKey =
           Inl (jwt_Error [ErrTokenSignatureInvalid, ErrSignatureInvalid])"
  unfolding ValidateToken_def ParseWithClaims_hmac[OF assms(1)]
  using assms(2) by simp

lemma ValidateToken_expired:
  assumes "hmac_hash alg = Some h" and "mac h secretKey (alg, claims) = sig"
    and "ExpiresAt claims = Some e" and "e \<le> now"
  shows "\<exists>rest. ValidateToken release mac now (Encoded alg claims (Some sig)) secretKey =
             Inl (jwt_Error (ErrTokenInvalidClaims # ErrTokenExpired # rest)) \<and>
           kind_of (jwt_Error (ErrTokenInvalidClaims # ErrTokenExpired # rest)) = Expired"
proof -
  from assms(4) have "e + 0 \<le> now" by simp
  from Validate_expired_kind[OF assms(3) this] obtain rest
    where v: "Validate now 0 claims = ErrTokenExpired # rest"
      and k: "kind_of (jwt_Error (ErrTokenInvalidClaims # ErrTokenExpired # rest)) = Expired"
    by blast
  have "ValidateToken release mac now (Encoded alg claims (Some sig)) secretKey =
             Inl (jwt_Error (ErrTokenInvalidClaims # ErrTokenExpired # rest))"
    unfolding ValidateToken_def ParseWithClaims_hmac[OF assms(1)] v
    using assms(2) by simp
  with k show ?thesis by blast
qed

lemma ValidateToken_valid:
  assumes "hmac_hash alg = Some h" and "mac h secretKey (alg, claims) = sig"
    and "\<forall>e. ExpiresAt claims = Some e \<longrightarrow> now < e"
    and "\<forall>n. NotBefore claims = Some n \<longrightarrow> n \<le> now"
  shows "ValidateToken release mac now (Encoded alg claims (Some sig)) secretKey = Inr claims"
proof -
  have "Validate now 0 claims = []"
    using assms(3,4) by (intro Validate_valid) simp_all
  then show ?thesis
    unfolding ValidateToken_def ParseWithClaims_hmac[OF assms(1)]
    using assms(2) by simp
qed

lemma ValidateToken_UserID_malformed:
  "secretKey \<noteq> [] \<Longrightarrow>
     ValidateToken_UserID release mac now (NotAToken s) secretKey =
       Inl (jwt_Error [ErrTokenMalformed])"
  by (simp add: ValidateToken_UserID_def ParseWithClaims_def errors_Is_def)

lemma ValidateToken_UserID_undecodable:
  "secretKey \<noteq> [] \<Longrightarrow> hmac_hash alg = Some h \<Longrightarrow>
     ValidateToken_UserID release mac now (Encoded alg claims None) secretKey =
       Inl (jwt_Error [ErrTokenMalformed])"
  by (simp add: ValidateToken_UserID_def ParseWithClaims_hmac_undecodable errors_Is_def)

lemma ValidateToken_UserID_no_method:
  "secretKey \<noteq> [] \<Longrightarrow> header_method alg = None \<Longrightarrow>
     ValidateToken_UserID release mac now (Encoded alg claims segment) secretKey =
       Inl (jwt_Error [ErrTokenUnverifiable])"
  by (simp add: ValidateToken_UserID_def ParseWithClaims_no_method errors_Is_def)

lemma ValidateToken_UserID_not_hmac:
  "secretKey \<noteq> [] \<Longrightarrow> hmac_hash alg = None \<Longrightarrow>
     ValidateToken_UserID release mac now (Encoded alg claims (Some sig)) secretKey =
       Inl (jwt_Error [ErrTokenUnverifiable])"
  by (simp add: ValidateToken_UserID_def ParseWithClaims_not_hmac errors_Is_def)

lemma ValidateToken_UserID_not_hmac_undecodable:
  assumes "secretKey \<noteq> []" and "hmac_hash alg = None"
  shows "ValidateToken_UserID release mac now (Encoded alg claims None) secretKey =
       Inl (jwt_Error [ErrTokenUnverifiable]) \<or>
     ValidateToken_UserID release mac now (Encoded alg claims None) secretKey =
       Inl (jwt_Error [ErrTokenMalformed])"
  using ParseWithClaims_not_hmac_undecodable[OF assms(2), of release mac now "5 * Second"
      secretKey claims] assms(1)
  by (auto simp: ValidateToken_UserID_def errors_Is_def)

lemma ValidateToken_UserID_signature:
  assumes "secretKey \<noteq> []" and "hmac_hash alg = Some h"
    and "mac h secretKey (alg, claims) \<noteq> sig"
  shows "ValidateToken_UserID release mac now (Encoded alg claims (Some sig)) secretKey =
              Inl (errors_New ''invalid token signature'')"
  unfolding ValidateToken_UserID_def ParseWithClaims_hmac[OF assms(2)]
  using assms(1,3) by (simp add: errors_Is_def)

lemma ValidateToken_UserID_expired:
  assumes "secretKey \<noteq> []" and "hmac_hash alg = Some h"
    and "mac h secretKey (alg, claims) = sig"
    and "ExpiresAt claims = Some e" and "e + 5 * Second \<le> now"
  shows "ValidateToken_UserID release mac now (Encoded alg claims (Some sig)) secretKey =
              Inl (errors_New ''token expired'')"
proof -
  from Validate_expired[OF assms(4,5)] obtain rest
    where v: "Validate now (5 * Second) claims = ErrTokenExpired # rest"
    by blast
  show ?thesis
    unfolding ValidateToken_UserID_def ParseWithClaims_hmac[OF assms(2)] v
    using assms(1,3) by (simp add: errors_Is_def)
qed

lemma ValidateToken_UserID_valid:
  assumes "secretKey \<noteq> []" and "hmac_hash alg = Some h"
    and "mac h secretKey (alg, claims) = sig"
    and "\<forall>e. ExpiresAt claims = Some e \<longrightarrow> now < e + 5 * Second"
    and "\<forall>n. NotBefore claims = Some n \<longrightarrow> n - 5 * Second \<le> now"
  shows "ValidateToken_UserID release mac now (Encoded alg claims (Some sig)) secretKey = Inr claims"
  unfolding ValidateToken_UserID_def ParseWithClaims_hmac[OF assms(2)] Validate_valid[OF assms(4,5)]
  using assms(1,3) by simp

subsection \<open>Issuing and validating\<close>

text \<open>
  Claim C4. For every identity, every non-empty secret and every pair of clock readings
  at issuance, the token \<^verbatim>\<open>GenerateAccessToken\<close> returns is accepted by
  \<^verbatim>\<open>ValidateToken\<close> under the same secret at every instant before the embedded expiry,
  and the claims returned carry the same account and lender identifiers; the embedded
  expiry lies between the clock reading it was computed from and that reading plus the
  15 minutes of \<^verbatim>\<open>AccessTokenDuration\<close> plus any non-negative leeway. The same holds
  for the variant of the package that carries a user identifier.
\<close>

theorem access_token_round_trip:
  assumes secret: "secretKey \<noteq> []"
    and before_expiry: "now < NewNumericDate (t_exp + AccessTokenDuration)"
    and leeway: "0 \<le> leeway"
  shows "(\<exists>tokenString claims e.
            GenerateAccessToken mac t_exp t_iat accountID lenderID secretKey = Inr tokenString \<and>
            ValidateToken release mac now tokenString secretKey = Inr claims \<and>
            Claims.AccountID claims = accountID \<and> Claims.LenderID claims = lenderID \<and>
            ExpiresAt claims = Some e \<and>
            t_exp \<le> e \<and> e \<le> t_exp + AccessTokenDuration + leeway) \<and>
         (\<exists>tokenString claims e.
            GenerateAccessToken_UserID mac' t_exp t_iat userID secretKey = Inr tokenString \<and>
            ValidateToken_UserID release mac' now tokenString secretKey = Inr claims \<and>
            UserID claims = userID \<and>
            ExpiresAt claims = Some e \<and>
            t_exp \<le> e \<and> e \<le> t_exp + AccessTokenDuration + leeway)"
proof -
  define e where "e = NewNumericDate (t_exp + AccessTokenDuration)"
  have e_eq: "e = NewNumericDate t_exp + 900 * Second"
    unfolding e_def AccessTokenDuration_eq by (rule NewNumericDate_add)
  have lower: "t_exp \<le> e"
    using NewNumericDate_gt[of t_exp] Second_pos unfolding e_eq by simp
  have upper: "e \<le> t_exp + AccessTokenDuration + leeway"
    using NewNumericDate_le[of t_exp] leeway unfolding e_eq AccessTokenDuration_eq by simp
  have now0: "now < e + 0" and now5: "now < e + 5 * Second"
    using before_expiry Second_pos by (simp_all add: e_def)
  define c :: Claims where "c = \<lparr>Issuer = [], Subject = [], Audience = [],
                     ExpiresAt = Some e, NotBefore = None,
                     IssuedAt = Some (NewNumericDate t_iat), ID = [],
                     Claims.AccountID = accountID, Claims.LenderID = lenderID\<rparr>"
  define u :: Claims_UserID where "u = \<lparr>Issuer = [], Subject = [], Audience = [],
                     ExpiresAt = Some e, NotBefore = None,
                     IssuedAt = Some (NewNumericDate t_iat), ID = [],
                     UserID = userID\<rparr>"
  have c_fields: "ExpiresAt c = Some e" "NotBefore c = None"
    "Claims.AccountID c = accountID" "Claims.LenderID c = lenderID"
    by (simp_all add: c_def)
  have u_fields: "ExpiresAt u = Some e" "NotBefore u = None" "UserID u = userID"
    by (simp_all add: u_def)
  have gen: "GenerateAccessToken mac t_exp t_iat accountID lenderID secretKey =
      Inr (Encoded (Some ''HS256'') c (Some (mac SHA256 secretKey (Some ''HS256'', c))))"
    by (simp add: GenerateAccessToken_def SignedString_HS256 c_def e_def Let_def)
  have val: "ValidateToken release mac now
      (Encoded (Some ''HS256'') c (Some (mac SHA256 secretKey (Some ''HS256'', c))))
      secretKey = Inr c"
    by (simp add: ValidateToken_def ParseWithClaims_signed
        Validate_ok[OF c_fields(1) c_fields(2) now0])
  have gen_u: "GenerateAccessToken_UserID mac' t_exp t_iat userID secretKey =
      Inr (Encoded (Some ''HS256'') u (Some (mac' SHA256 secretKey (Some ''HS256'', u))))"
    using secret by (simp add: GenerateAccessToken_UserID_def SignedString_HS256 u_def e_def Let_def)
  have val_u: "ValidateToken_UserID release mac' now
      (Encoded (Some ''HS256'') u (Some (mac' SHA256 secretKey (Some ''HS256'', u)))) secretKey
      = Inr u"
    using secret
    by (simp add: ValidateToken_UserID_def ParseWithClaims_signed
        Validate_ok[OF u_fields(1) u_fields(2) now5])
  from gen val c_fields lower upper gen_u val_u u_fields show ?thesis
    by blast
qed

text \<open>
  The identifiers and the secret of the repository's tests: a token issued at instant 0
  and validated one second later.
\<close>

theorem access_token_round_trip_witness:
  "GenerateAccessToken test_hmac 0 0 123 456 ''supersecretkey'' =
     Inr (Encoded (Some ''HS256'') (test_claims 900 0) (Some ''supersecretkey'')) \<and>
   ValidateToken Signature_before_keyfunc test_hmac Second
     (Encoded (Some ''HS256'') (test_claims 900 0) (Some ''supersecretkey''))
     ''supersecretkey'' = Inr (test_claims 900 0) \<and>
   (\<exists>claims. ValidateToken_UserID Signature_before_keyfunc test_hmac Second
        (Encoded (Some ''HS256'') (test_claims_UserID 900 0) (Some ''supersecretkey''))
        ''supersecretkey'' = Inr claims \<and> UserID claims = 123)"
proof -
  have secret: "''supersecretkey'' \<noteq> []" by simp
  have before: "Second < NewNumericDate (0 + AccessTokenDuration)"
    by (simp add: NewNumericDate_def AccessTokenDuration_def Minute_def Second_def)
  have leeway: "(0::int) \<le> 5 * Second" by (simp add: Second_def)
  have gen: "GenerateAccessToken test_hmac 0 0 123 456 ''supersecretkey'' =
     Inr (Encoded (Some ''HS256'') (test_claims 900 0) (Some ''supersecretkey''))"
    by (simp add: GenerateAccessToken_def SignedString_HS256 test_hmac_def test_claims_def
        NewNumericDate_def AccessTokenDuration_def Minute_def Second_def Let_def)
  have gen_u: "GenerateAccessToken_UserID test_hmac 0 0 123 ''supersecretkey'' =
     Inr (Encoded (Some ''HS256'') (test_claims_UserID 900 0) (Some ''supersecretkey''))"
    by (simp add: GenerateAccessToken_UserID_def SignedString_HS256 test_hmac_def
        test_claims_UserID_def NewNumericDate_def AccessTokenDuration_def Minute_def
        Second_def Let_def)
  from access_token_round_trip[OF secret before leeway, where mac = test_hmac
      and mac' = test_hmac and t_iat = 0 and accountID = 123 and lenderID = 456
      and userID = 123 and release = Signature_before_keyfunc]
  obtain tok c tok' c' where
    r: "GenerateAccessToken test_hmac 0 0 123 456 ''supersecretkey'' = Inr tok"
       "ValidateToken Signature_before_keyfunc test_hmac Second tok ''supersecretkey'' = Inr c"
       "GenerateAccessToken_UserID test_hmac 0 0 123 ''supersecretkey'' = Inr tok'"
       "ValidateToken_UserID Signature_before_keyfunc test_hmac Second tok' ''supersecretkey''
          = Inr c'"
       "UserID c' = 123"
    by blast
  have v0: "Validate Second 0 (test_claims 900 0) = []"
    by (simp add: Validate_def verifyExpiresAt_def verifyNotBefore_def test_claims_def
        Second_def)
  have val: "ValidateToken Signature_before_keyfunc test_hmac Second
      (Encoded (Some ''HS256'') (test_claims 900 0) (Some ''supersecretkey'')) ''supersecretkey''
      = Inr (test_claims 900 0)"
    unfolding ValidateToken_def ParseWithClaims_hmac[OF hmac_hash_HS256] v0
    by (simp add: test_hmac_def)
  from r gen_u have "\<exists>claims. ValidateToken_UserID Signature_before_keyfunc test_hmac Second
        (Encoded (Some ''HS256'') (test_claims_UserID 900 0) (Some ''supersecretkey''))
        ''supersecretkey'' = Inr claims \<and> UserID claims = 123"
    by auto
  with gen val show ?thesis by blast
qed

subsection \<open>The failures of validation\<close>

text \<open>
  Claim C2, as the code has it, for both variants of \<^verbatim>\<open>ValidateToken\<close>, every token
  string and every non-empty secret. A string that does not decode into a header and
  claims fails with the library's malformed-token error, and so does a token of the HMAC
  family whose third segment is not base64url. A token whose header names no algorithm or
  an unknown one, whatever its third segment, or a known algorithm outside the HMAC
  family with a decodable third segment, fails with the library's unverifiable-token
  error, which a caller reads neither as an invalid signature nor as a malformed token;
  with an undecodable third segment, a token of a known algorithm outside the HMAC family
  fails with one of these two errors, by the release of the library. A token of the HMAC
  family whose signature is not the tag under the secret fails with the invalid-signature
  error. A token whose signature verifies fails as expired when the clock is at or past
  the expiry plus the leeway, which is 0 in internal/auth/jwt.go and five seconds in the
  other variant. A token whose signature verifies, that has not expired by that measure
  and whose not-before instant, if any, is at most the leeway ahead, yields its claims.
  The kinds of these errors differ for a caller.
\<close>

theorem ValidateToken_failure_kinds:
  assumes secret: "secretKey \<noteq> []"
  shows "(ValidateToken release mac now (NotAToken s) secretKey =
            Inl (jwt_Error [ErrTokenMalformed]) \<and>
          (hmac_hash alg = Some h \<longrightarrow>
             ValidateToken release mac now (Encoded alg claims None) secretKey =
               Inl (jwt_Error [ErrTokenMalformed])) \<and>
          (header_method alg = None \<longrightarrow>
             ValidateToken release mac now (Encoded alg claims segment) secretKey =
               Inl (jwt_Error [ErrTokenUnverifiable])) \<and>
          (hmac_hash alg = None \<longrightarrow>
             ValidateToken release mac now (Encoded alg claims (Some sig)) secretKey =
               Inl (jwt_Error [ErrTokenUnverifiable])) \<and>
          (hmac_hash alg = None \<longrightarrow>
             ValidateToken release mac now (Encoded alg claims None) secretKey =
               Inl (jwt_Error [ErrTokenUnverifiable]) \<or>
             ValidateToken release mac now (Encoded alg claims None) secretKey =
               Inl (jwt_Error [ErrTokenMalformed])) \<and>
          (hmac_hash alg = Some h \<and> mac h secretKey (alg, claims) \<noteq> sig \<longrightarrow>
             ValidateToken release mac now (Encoded alg claims (Some sig)) secretKey =
               Inl (jwt_Error [ErrTokenSignatureInvalid, ErrSignatureInvalid])) \<and>
          (hmac_hash alg = Some h \<and> mac h secretKey (alg, claims) = sig \<and>
           ExpiresAt claims = Some e \<and> e \<le> now \<longrightarrow>
             (\<exists>rest. ValidateToken release mac now (Encoded alg claims (Some sig)) secretKey =
                       Inl (jwt_Error (ErrTokenInvalidClaims # ErrTokenExpired # rest)) \<and>
                     kind_of (jwt_Error (ErrTokenInvalidClaims # ErrTokenExpired # rest)) =
                       Expired)) \<and>
          (hmac_hash alg = Some h \<and> mac h secretKey (alg, claims) = sig \<and>
           (\<forall>e. ExpiresAt claims = Some e \<longrightarrow> now < e) \<and>
           (\<forall>n. NotBefore claims = Some n \<longrightarrow> n \<le> now) \<longrightarrow>
             ValidateToken release mac now (Encoded alg claims (Some sig)) secretKey =
               Inr claims)) \<and>
         (ValidateToken_UserID release mac' now (NotAToken s) secretKey =
            Inl (jwt_Error [ErrTokenMalformed]) \<and>
          (hmac_hash alg = Some h \<longrightarrow>
             ValidateToken_UserID release mac' now (Encoded alg claims' None) secretKey =
               Inl (jwt_Error [ErrTokenMalformed])) \<and>
          (header_method alg = None \<longrightarrow>
             ValidateToken_UserID release mac' now (Encoded alg claims' segment) secretKey =
               Inl (jwt_Error [ErrTokenUnverifiable])) \<and>
          (hmac_hash alg = None \<longrightarrow>
             ValidateToken_UserID release mac' now (Encoded alg claims' (Some sig)) secretKey =
               Inl (jwt_Error [ErrTokenUnverifiable])) \<and>
          (hmac_hash alg = None \<longrightarrow>
             ValidateToken_UserID release mac' now (Encoded alg claims' None) secretKey =
               Inl (jwt_Error [ErrTokenUnverifiable]) \<or>
             ValidateToken_UserID release mac' now (Encoded alg claims' None) secretKey =
               Inl (jwt_Error [ErrTokenMalformed])) \<and>
          (hmac_hash alg = Some h \<and> mac' h secretKey (alg, claims') \<noteq> sig \<longrightarrow>
             ValidateToken_UserID release mac' now (Encoded alg claims' (Some sig)) secretKey =
               Inl (errors_New ''invalid token signature'')) \<and>
          (hmac_hash alg = Some h \<and> mac' h secretKey (alg, claims') = sig \<and>
           ExpiresAt claims' = Some e \<and> e + 5 * Second \<le> now \<longrightarrow>
             ValidateToken_UserID release mac' now (Encoded alg claims' (Some sig)) secretKey =
               Inl (errors_New ''token expired'')) \<and>
          (hmac_hash alg = Some h \<and> mac' h secretKey (alg, claims') = sig \<and>
           (\<forall>e. ExpiresAt claims' = Some e \<longrightarrow> now < e + 5 * Second) \<and>
           (\<forall>n. NotBefore claims' = Some n \<longrightarrow> n - 5 * Second \<le> now) \<longrightarrow>
             ValidateToken_UserID release mac' now (Encoded alg claims' (Some sig)) secretKey =
               Inr claims')) \<and>
         (kind_of (jwt_Error [ErrTokenMalformed]) = Malformed \<and>
          kind_of (jwt_Error [ErrTokenUnverifiable]) = OtherFailure \<and>
          kind_of (jwt_Error [ErrTokenSignatureInvalid, ErrSignatureInvalid]) = InvalidSignature \<and>
          kind_of (errors_New ''invalid token signature'') = InvalidSignature \<and>
          kind_of (errors_New ''token expired'') = Expired)"
proof -
  have jwt_go: "ValidateToken release mac now (NotAToken s) secretKey =
            Inl (jwt_Error [ErrTokenMalformed]) \<and>
          (hmac_hash alg = Some h \<longrightarrow>
             ValidateToken release mac now (Encoded alg claims None) secretKey =
               Inl (jwt_Error [ErrTokenMalformed])) \<and>
          (header_method alg = None \<longrightarrow>
             ValidateToken release mac now (Encoded alg claims segment) secretKey =
               Inl (jwt_Error [ErrTokenUnverifiable])) \<and>
          (hmac_hash alg = None \<longrightarrow>
             ValidateToken release mac now (Encoded alg claims (Some sig)) secretKey =
               Inl (jwt_Error [ErrTokenUnverifiable])) \<and>
          (hmac_hash alg = None \<longrightarrow>
             ValidateToken release mac now (Encoded alg claims None) secretKey =
               Inl (jwt_Error [ErrTokenUnverifiable]) \<or>
             ValidateToken release mac now (Encoded alg claims None) secretKey =
               Inl (jwt_Error [ErrTokenMalformed])) \<and>
          (hmac_hash alg = Some h \<and> mac h secretKey (alg, claims) \<noteq> sig \<longrightarrow>
             ValidateToken release mac now (Encoded alg claims (Some sig)) secretKey =
               Inl (jwt_Error [ErrTokenSignatureInvalid, ErrSignatureInvalid])) \<and>
          (hmac_hash alg = Some h \<and> mac h secretKey (alg, claims) = sig \<and>
           ExpiresAt claims = Some e \<and> e \<le> now \<longrightarrow>
             (\<exists>rest. ValidateToken release mac now (Encoded alg claims (Some sig)) secretKey =
                       Inl (jwt_Error (ErrTokenInvalidClaims # ErrTokenExpired # rest)) \<and>
                     kind_of (jwt_Error (ErrTokenInvalidClaims # ErrTokenExpired # rest)) =
                       Expired)) \<and>
          (hmac_hash alg = Some h \<and> mac h secretKey (alg, claims) = sig \<and>
           (\<forall>e. ExpiresAt claims = Some e \<longrightarrow> now < e) \<and>
           (\<forall>n. NotBefore claims = Some n \<longrightarrow> n \<le> now) \<longrightarrow>
             ValidateToken release mac now (Encoded alg claims (Some sig)) secretKey =
               Inr claims)"
  proof (intro conjI impI)
    show "ValidateToken release mac now (NotAToken s) secretKey =
        Inl (jwt_Error [ErrTokenMalformed])"
      by (rule ValidateToken_malformed)
  next
    assume "hmac_hash alg = Some h"
    then show "ValidateToken release mac now (Encoded alg claims None) secretKey =
        Inl (jwt_Error [ErrTokenMalformed])"
      by (rule ValidateToken_undecodable)
  next
    assume "header_method alg = None"
    then show "ValidateToken release mac now (Encoded alg claims segment) secretKey =
        Inl (jwt_Error [ErrTokenUnverifiable])"
      by (rule ValidateToken_no_method)
  next
    assume "hmac_hash alg = None"
    then show "ValidateToken release mac now (Encoded alg claims (Some sig)) secretKey =
        Inl (jwt_Error [ErrTokenUnverifiable])"
      by (rule ValidateToken_not_hmac)
  next
    assume "hmac_hash alg = None"
    then show "ValidateToken release mac now (Encoded alg claims None) secretKey =
        Inl (jwt_Error [ErrTokenUnverifiable]) \<or>
      ValidateToken release mac now (Encoded alg claims None) secretKey =
        Inl (jwt_Error [ErrTokenMalformed])"
      by (rule ValidateToken_not_hmac_undecodable)
  next
    assume "hmac_hash alg = Some h \<and> mac h secretKey (alg, claims) \<noteq> sig"
    then show "ValidateToken release mac now (Encoded alg claims (Some sig)) secretKey =
        Inl (jwt_Error [ErrTokenSignatureInvalid, ErrSignatureInvalid])"
      using ValidateToken_signature[of alg h mac secretKey claims sig release now] by blast
  next
    assume "hmac_hash alg = Some h \<and> mac h secretKey (alg, claims) = sig \<and>
           ExpiresAt claims = Some e \<and> e \<le> now"
    then show "\<exists>rest. ValidateToken release mac now (Encoded alg claims (Some sig)) secretKey =
                       Inl (jwt_Error (ErrTokenInvalidClaims # ErrTokenExpired # rest)) \<and>
                     kind_of (jwt_Error (ErrTokenInvalidClaims # ErrTokenExpired # rest)) =
                       Expired"
      using ValidateToken_expired[of alg h mac secretKey claims sig e now release] by blast
  next
    assume "hmac_hash alg = Some h \<and> mac h secretKey (alg, claims) = sig \<and>
           (\<forall>e. ExpiresAt claims = Some e \<longrightarrow> now < e) \<and>
           (\<forall>n. NotBefore claims = Some n \<longrightarrow> n \<le> now)"
    then show "ValidateToken release mac now (Encoded alg claims (Some sig)) secretKey = Inr claims"
      using ValidateToken_valid[of alg h mac secretKey claims sig now release] by blast
  qed
  have sibling: "ValidateToken_UserID release mac' now (NotAToken s) secretKey =
            Inl (jwt_Error [ErrTokenMalformed]) \<and>
          (hmac_hash alg = Some h \<longrightarrow>
             ValidateToken_UserID release mac' now (Encoded alg claims' None) secretKey =
               Inl (jwt_Error [ErrTokenMalformed])) \<and>
          (header_method alg = None \<longrightarrow>
             ValidateToken_UserID release mac' now (Encoded alg claims' segment) secretKey =
               Inl (jwt_Error [ErrTokenUnverifiable])) \<and>
          (hmac_hash alg = None \<longrightarrow>
             ValidateToken_UserID release mac' now (Encoded alg claims' (Some sig)) secretKey =
               Inl (jwt_Error [ErrTokenUnverifiable])) \<and>
          (hmac_hash alg = None \<longrightarrow>
             ValidateToken_UserID release mac' now (Encoded alg claims' None) secretKey =
               Inl (jwt_Error [ErrTokenUnverifiable]) \<or>
             ValidateToken_UserID release mac' now (Encoded alg claims' None) secretKey =
               Inl (jwt_Error [ErrTokenMalformed])) \<and>
          (hmac_hash alg = Some h \<and> mac' h secretKey (alg, claims') \<noteq> sig \<longrightarrow>
             ValidateToken_UserID release mac' now (Encoded alg claims' (Some sig)) secretKey =
               Inl (errors_New ''invalid token signature'')) \<and>
          (hmac_hash alg = Some h \<and> mac' h secretKey (alg, claims') = sig \<and>
           ExpiresAt claims' = Some e \<and> e + 5 * Second \<le> now \<longrightarrow>
             ValidateToken_UserID release mac' now (Encoded alg claims' (Some sig)) secretKey =
               Inl (errors_New ''token expired'')) \<and>
          (hmac_hash alg = Some h \<and> mac' h secretKey (alg, claims') = sig \<and>
           (\<forall>e. ExpiresAt claims' = Some e \<longrightarrow> now < e + 5 * Second) \<and>
           (\<forall>n. NotBefore claims' = Some n \<longrightarrow> n - 5 * Second \<le> now) \<longrightarrow>
             ValidateToken_UserID release mac' now (Encoded alg claims' (Some sig)) secretKey =
               Inr claims')"
  proof (intro conjI impI)
    show "ValidateToken_UserID release mac' now (NotAToken s) secretKey =
        Inl (jwt_Error [ErrTokenMalformed])"
      by (rule ValidateToken_UserID_malformed[OF secret])
  next
    assume "hmac_hash alg = Some h"
    then show "ValidateToken_UserID release mac' now (Encoded alg claims' None) secretKey =
        Inl (jwt_Error [ErrTokenMalformed])"
      by (rule ValidateToken_UserID_undecodable[OF secret])
  next
    assume "header_method alg = None"
    then show "ValidateToken_UserID release mac' now (Encoded alg claims' segment) secretKey =
        Inl (jwt_Error [ErrTokenUnverifiable])"
      by (rule ValidateToken_UserID_no_method[OF secret])
  next
    assume "hmac_hash alg = None"
    then show "ValidateToken_UserID release mac' now (Encoded alg claims' (Some sig)) secretKey =
        Inl (jwt_Error [ErrTokenUnverifiable])"
      by (rule ValidateToken_UserID_not_hmac[OF secret])
  next
    assume "hmac_hash alg = None"
    then show "ValidateToken_UserID release mac' now (Encoded alg claims' None) secretKey =
        Inl (jwt_Error [ErrTokenUnverifiable]) \<or>
      ValidateToken_UserID release mac' now (Encoded alg claims' None) secretKey =
        Inl (jwt_Error [ErrTokenMalformed])"
      by (rule ValidateToken_UserID_not_hmac_undecodable[OF secret])
  next
    assume "hmac_hash alg = Some h \<and> mac' h secretKey (alg, claims') \<noteq> sig"
    then show "ValidateToken_UserID release mac' now (Encoded alg claims' (Some sig)) secretKey =
        Inl (errors_New ''invalid token signature'')"
      using ValidateToken_UserID_signature[OF secret, of alg h mac' claims' sig release now]
      by blast
  next
    assume "hmac_hash alg = Some h \<and> mac' h secretKey (alg, claims') = sig \<and>
           ExpiresAt claims' = Some e \<and> e + 5 * Second \<le> now"
    then show "ValidateToken_UserID release mac' now (Encoded alg claims' (Some sig)) secretKey =
        Inl (errors_New ''token expired'')"
      using ValidateToken_UserID_expired[OF secret, of alg h mac' claims' sig e now release]
      by blast
  next
    assume "hmac_hash alg = Some h \<and> mac' h secretKey (alg, claims') = sig \<and>
           (\<forall>e. ExpiresAt claims' = Some e \<longrightarrow> now < e + 5 * Second) \<and>
           (\<forall>n. NotBefore claims' = Some n \<longrightarrow> n - 5 * Second \<le> now)"
    then show "ValidateToken_UserID release mac' now (Encoded alg claims' (Some sig)) secretKey =
        Inr claims'"
      using ValidateToken_UserID_valid[OF secret, of alg h mac' claims' sig now release]
      by blast
  qed
  have kinds: "kind_of (jwt_Error [ErrTokenMalformed]) = Malformed \<and>
          kind_of (jwt_Error [ErrTokenUnverifiable]) = OtherFailure \<and>
          kind_of (jwt_Error [ErrTokenSignatureInvalid, ErrSignatureInvalid]) = InvalidSignature \<and>
          kind_of (errors_New ''invalid token signature'') = InvalidSignature \<and>
          kind_of (errors_New ''token expired'') = Expired"
    by (simp add: kind_of_def errors_Is_def)
  from jwt_go sibling kinds show ?thesis
    by (rule conjI[OF _ conjI])
qed

text \<open>
  The rows of the two test tables for \<^verbatim>\<open>ValidateToken\<close>, and the leeway of the second
  variant: a token that expired four seconds ago is still accepted, one that expired five
  seconds ago is not.
\<close>

theorem ValidateToken_failure_kinds_witness:
  "ValidateToken Signature_before_keyfunc test_hmac 0 (NotAToken ''invalid.token.string'')
       ''supersecretkey'' = Inl (jwt_Error [ErrTokenMalformed]) \<and>
   ValidateToken Signature_before_keyfunc test_hmac 0
       (Encoded (Some ''HS256'') (test_claims 900 0) (Some ''supersecretkey'')) ''wrongsecretkey''
     = Inl (jwt_Error [ErrTokenSignatureInvalid, ErrSignatureInvalid]) \<and>
   ValidateToken Signature_before_keyfunc test_hmac (899 * Second)
       (Encoded (Some ''HS256'') (test_claims 900 0) (Some ''supersecretkey'')) ''supersecretkey''
     = Inr (test_claims 900 0) \<and>
   ValidateToken_UserID Signature_before_keyfunc test_hmac 0
       (NotAToken ''malformed.token.string'') ''supersecretkey''
     = Inl (jwt_Error [ErrTokenMalformed]) \<and>
   ValidateToken_UserID Signature_before_keyfunc test_hmac 0
       (Encoded (Some ''HS256'') (test_claims_UserID 900 0) (Some ''wrongsecret''))
       ''supersecretkey''
     = Inl (errors_New ''invalid token signature'') \<and>
   ValidateToken_UserID Signature_before_keyfunc test_hmac (905 * Second)
       (Encoded (Some ''HS256'') (test_claims_UserID 900 0) (Some ''supersecretkey''))
       ''supersecretkey''
     = Inl (errors_New ''token expired'') \<and>
   ValidateToken_UserID Signature_before_keyfunc test_hmac (904 * Second)
       (Encoded (Some ''HS256'') (test_claims_UserID 900 0) (Some ''supersecretkey''))
       ''supersecretkey''
     = Inr (test_claims_UserID 900 0)"
proof -
  have secret: "''supersecretkey'' \<noteq> []" "''wrongsecretkey'' \<noteq> []" by simp_all
  note hh = hmac_hash_HS256
  have c: "ExpiresAt (test_claims 900 0) = Some (900 * Second)"
    "NotBefore (test_claims 900 0) = None"
    "ExpiresAt (test_claims_UserID 900 0) = Some (900 * Second)"
    "NotBefore (test_claims_UserID 900 0) = None"
    by (simp_all add: test_claims_def test_claims_UserID_def)
  have tags: "test_hmac SHA256 ''wrongsecretkey'' (Some ''HS256'', test_claims 900 0)
      \<noteq> ''supersecretkey''"
    "test_hmac SHA256 ''supersecretkey'' (Some ''HS256'', test_claims 900 0)
      = ''supersecretkey''"
    "test_hmac SHA256 ''supersecretkey'' (Some ''HS256'', test_claims_UserID 900 0)
      \<noteq> ''wrongsecret''"
    "test_hmac SHA256 ''supersecretkey'' (Some ''HS256'', test_claims_UserID 900 0)
      = ''supersecretkey''"
    by (simp_all add: test_hmac_def)
  have times: "899 * Second < 900 * Second" "900 * Second + 5 * Second \<le> 905 * Second"
    "904 * Second < 900 * Second + 5 * Second"
    by (simp_all add: Second_def)
  note T = ValidateToken_failure_kinds[where release = Signature_before_keyfunc
      and mac = test_hmac and mac' = test_hmac and alg = "Some ''HS256''" and h = SHA256
      and claims = "test_claims 900 0" and claims' = "test_claims_UserID 900 0"
      and e = "900 * Second" and segment = None]
  note A = T[OF secret(1), where now = 0 and sig = "''wrongsecret''"
      and s = "''invalid.token.string''"]
  note B = T[OF secret(2), where now = 0 and sig = "''supersecretkey''" and s = "[]"]
  note C = T[OF secret(1), where now = "899 * Second" and sig = "''supersecretkey''"
      and s = "[]"]
  note D = T[OF secret(1), where now = 0 and sig = "''wrongsecret''"
      and s = "''malformed.token.string''"]
  note E = T[OF secret(1), where now = "905 * Second" and sig = "''supersecretkey''"
      and s = "[]"]
  note F = T[OF secret(1), where now = "904 * Second" and sig = "''supersecretkey''"
      and s = "[]"]
  have 1: "ValidateToken Signature_before_keyfunc test_hmac 0
      (NotAToken ''invalid.token.string'') ''supersecretkey'' = Inl (jwt_Error [ErrTokenMalformed])"
    by (rule A[THEN conjunct1, THEN conjunct1])
  from B[THEN conjunct1, THEN conjunct2, THEN conjunct2, THEN conjunct2, THEN conjunct2, THEN conjunct2, THEN conjunct1] hh tags(1)
  have 2: "ValidateToken Signature_before_keyfunc test_hmac 0
       (Encoded (Some ''HS256'') (test_claims 900 0) (Some ''supersecretkey'')) ''wrongsecretkey''
     = Inl (jwt_Error [ErrTokenSignatureInvalid, ErrSignatureInvalid])"
    by simp
  from C[THEN conjunct1, THEN conjunct2, THEN conjunct2, THEN conjunct2, THEN conjunct2, THEN conjunct2, THEN conjunct2, THEN conjunct2] hh tags(2) c(1,2) times(1)
  have 3: "ValidateToken Signature_before_keyfunc test_hmac (899 * Second)
       (Encoded (Some ''HS256'') (test_claims 900 0) (Some ''supersecretkey'')) ''supersecretkey''
     = Inr (test_claims 900 0)"
    by simp
  have 4: "ValidateToken_UserID Signature_before_keyfunc test_hmac 0
       (NotAToken ''malformed.token.string'') ''supersecretkey''
     = Inl (jwt_Error [ErrTokenMalformed])"
    by (rule D[THEN conjunct2, THEN conjunct1, THEN conjunct1])
  from D[THEN conjunct2, THEN conjunct1, THEN conjunct2, THEN conjunct2, THEN conjunct2, THEN conjunct2, THEN conjunct2, THEN conjunct1] hh tags(3)
  have 5: "ValidateToken_UserID Signature_before_keyfunc test_hmac 0
       (Encoded (Some ''HS256'') (test_claims_UserID 900 0) (Some ''wrongsecret''))
       ''supersecretkey''
     = Inl (errors_New ''invalid token signature'')"
    by simp
  from E[THEN conjunct2, THEN conjunct1, THEN conjunct2, THEN conjunct2, THEN conjunct2, THEN conjunct2, THEN conjunct2, THEN conjunct2, THEN conjunct1] hh tags(4) c(3) times(2)
  have 6: "ValidateToken_UserID Signature_before_keyfunc test_hmac (905 * Second)
       (Encoded (Some ''HS256'') (test_claims_UserID 900 0) (Some ''supersecretkey''))
       ''supersecretkey''
     = Inl (errors_New ''token expired'')"
    by simp
  from F[THEN conjunct2, THEN conjunct1, THEN conjunct2, THEN conjunct2, THEN conjunct2, THEN conjunct2, THEN conjunct2, THEN conjunct2, THEN conjunct2] hh tags(4) c(3,4) times(3)
  have 7: "ValidateToken_UserID Signature_before_keyfunc test_hmac (904 * Second)
       (Encoded (Some ''HS256'') (test_claims_UserID 900 0) (Some ''supersecretkey''))
       ''supersecretkey''
     = Inr (test_claims_UserID 900 0)"
    by simp
  show ?thesis
    by (intro conjI) (rule 1 2 3 4 5 6 7)+
qed

text \<open>
  Claim C2 as stated fails at three inputs, in both releases of the library. A well-formed
  token whose header names \<open>RS256\<close> is refused by both variants with the
  unverifiable-token error, not with an invalid-signature error. A token whose header
  names no algorithm and whose third segment does not decode is refused with the same
  error, not as malformed. And \<^verbatim>\<open>ValidateToken\<close> of internal/auth/jwt.go refuses a
  token whose signature verifies 50 milliseconds after its expiry, as the package's own
  test expects: it tolerates no leeway.
\<close>

theorem ValidateToken_claim_counterexample:
  "ValidateToken Keyfunc_before_signature test_hmac 0
      (Encoded (Some ''RS256'') (test_claims 900 0) (Some ''forged'')) ''supersecretkey''
     = Inl (jwt_Error [ErrTokenUnverifiable]) \<and>
   ValidateToken Signature_before_keyfunc test_hmac 0
      (Encoded (Some ''RS256'') (test_claims 900 0) (Some ''forged'')) ''supersecretkey''
     = Inl (jwt_Error [ErrTokenUnverifiable]) \<and>
   ValidateToken_UserID Keyfunc_before_signature test_hmac 0
      (Encoded (Some ''RS256'') (test_claims_UserID 900 0) (Some ''forged'')) ''supersecretkey''
     = Inl (jwt_Error [ErrTokenUnverifiable]) \<and>
   ValidateToken_UserID Signature_before_keyfunc test_hmac 0
      (Encoded (Some ''RS256'') (test_claims_UserID 900 0) (Some ''forged'')) ''supersecretkey''
     = Inl (jwt_Error [ErrTokenUnverifiable]) \<and>
   GetSigningMethod ''RS256'' = Some (SigningMethodRSA SHA256) \<and>
   kind_of (jwt_Error [ErrTokenUnverifiable]) \<noteq> InvalidSignature \<and>
   ValidateToken Keyfunc_before_signature test_hmac 0
      (Encoded None (test_claims 900 0) None) ''supersecretkey''
     = Inl (jwt_Error [ErrTokenUnverifiable]) \<and>
   ValidateToken Signature_before_keyfunc test_hmac 0
      (Encoded None (test_claims 900 0) None) ''supersecretkey''
     = Inl (jwt_Error [ErrTokenUnverifiable]) \<and>
   ValidateToken_UserID Keyfunc_before_signature test_hmac 0
      (Encoded None (test_claims_UserID 900 0) None) ''supersecretkey''
     = Inl (jwt_Error [ErrTokenUnverifiable]) \<and>
   ValidateToken_UserID Signature_before_keyfunc test_hmac 0
      (Encoded None (test_claims_UserID 900 0) None) ''supersecretkey''
     = Inl (jwt_Error [ErrTokenUnverifiable]) \<and>
   kind_of (jwt_Error [ErrTokenUnverifiable]) \<noteq> Malformed \<and>
   ValidateToken Keyfunc_before_signature test_hmac (900 * Second + 50000000)
      (Encoded (Some ''HS256'') (test_claims 900 0) (Some ''supersecretkey'')) ''supersecretkey''
     = Inl (jwt_Error [ErrTokenInvalidClaims, ErrTokenExpired]) \<and>
   ValidateToken Signature_before_keyfunc test_hmac (900 * Second + 50000000)
      (Encoded (Some ''HS256'') (test_claims 900 0) (Some ''supersecretkey'')) ''supersecretkey''
     = Inl (jwt_Error [ErrTokenInvalidClaims, ErrTokenExpired]) \<and>
   kind_of (jwt_Error [ErrTokenInvalidClaims, ErrTokenExpired]) = Expired"
proof -
  have rs: "GetSigningMethod ''RS256'' = Some (SigningMethodRSA SHA256)"
    by (simp add: GetSigningMethod_def signing_methods_def)
  have k: "kind_of (jwt_Error [ErrTokenUnverifiable]) \<noteq> InvalidSignature"
    "kind_of (jwt_Error [ErrTokenUnverifiable]) \<noteq> Malformed"
    "kind_of (jwt_Error [ErrTokenInvalidClaims, ErrTokenExpired]) = Expired"
    by (simp_all add: kind_of_def errors_Is_def)
  have a: "ValidateToken release test_hmac 0
      (Encoded (Some ''RS256'') (test_claims 900 0) (Some ''forged'')) ''supersecretkey''
     = Inl (jwt_Error [ErrTokenUnverifiable])"
    "ValidateToken_UserID release test_hmac 0
      (Encoded (Some ''RS256'') (test_claims_UserID 900 0) (Some ''forged'')) ''supersecretkey''
     = Inl (jwt_Error [ErrTokenUnverifiable])" for release
    by (cases release; simp add: ValidateToken_def ValidateToken_UserID_def ParseWithClaims_def
        rs keyFunc_def errors_Is_def)+
  have b: "ValidateToken release test_hmac 0
      (Encoded None (test_claims 900 0) None) ''supersecretkey''
     = Inl (jwt_Error [ErrTokenUnverifiable])"
    "ValidateToken_UserID release test_hmac 0
      (Encoded None (test_claims_UserID 900 0) None) ''supersecretkey''
     = Inl (jwt_Error [ErrTokenUnverifiable])" for release
    by (simp_all add: ValidateToken_def ValidateToken_UserID_def ParseWithClaims_def
        errors_Is_def)
  have v: "Validate (900 * Second + 50000000) 0 (test_claims 900 0) = [ErrTokenExpired]"
    by (simp add: Validate_def verifyExpiresAt_def verifyNotBefore_def test_claims_def
        Second_def)
  have c: "ValidateToken release test_hmac (900 * Second + 50000000)
      (Encoded (Some ''HS256'') (test_claims 900 0) (Some ''supersecretkey'')) ''supersecretkey''
     = Inl (jwt_Error [ErrTokenInvalidClaims, ErrTokenExpired])" for release
    unfolding ValidateToken_def ParseWithClaims_hmac[OF hmac_hash_HS256] v
    by (simp add: test_hmac_def)
  from a b c rs k show ?thesis by simp
qed

subsection \<open>The empty secret\<close>

text \<open>
  Claim C3. Every operation of the variant with a user identifier refuses the empty
  secret before any other work, whatever the token. The variant of internal/auth/jwt.go
  has no such check: with the empty secret it signs both tokens and returns no error, and
  it accepts the token it signed.
\<close>

theorem empty_secret_checked_only_in_UserID_variant:
  "GenerateAccessToken_UserID mac t1 t2 userID [] = Inl (errors_New ''secret key cannot be empty'') \<and>
   GenerateRefreshToken_UserID mac t1 t2 userID [] = Inl (errors_New ''secret key cannot be empty'') \<and>
   GenerateTokenPair_UserID mac t1 t2 t3 t4 userID [] = Inl (errors_New ''secret key cannot be empty'') \<and>
   ValidateToken_UserID release mac now tokenString [] =
     Inl (errors_New ''secret key cannot be empty'') \<and>
   kind_of (errors_New ''secret key cannot be empty'') = EmptySecret \<and>
   GenerateAccessToken test_hmac 0 0 123 456 [] =
     Inr (Encoded (Some ''HS256'') (test_claims 900 0) (Some [])) \<and>
   GenerateRefreshToken test_hmac 0 0 123 456 [] =
     Inr (Encoded (Some ''HS256'') (test_claims 604800 0) (Some [])) \<and>
   GenerateTokenPair test_hmac 0 0 0 0 123 456 [] =
     Inr \<lparr>AccessToken = Encoded (Some ''HS256'') (test_claims 900 0) (Some []),
          RefreshToken = Encoded (Some ''HS256'') (test_claims 604800 0) (Some [])\<rparr> \<and>
   ValidateToken release test_hmac 0 (Encoded (Some ''HS256'') (test_claims 900 0) (Some [])) [] =
     Inr (test_claims 900 0)"
proof -
  have a: "GenerateAccessToken test_hmac 0 0 123 456 [] =
     Inr (Encoded (Some ''HS256'') (test_claims 900 0) (Some []))"
    by (simp add: GenerateAccessToken_def SignedString_HS256 test_hmac_def test_claims_def
        NewNumericDate_def AccessTokenDuration_def Minute_def Second_def Let_def)
  have r: "GenerateRefreshToken test_hmac 0 0 123 456 [] =
     Inr (Encoded (Some ''HS256'') (test_claims 604800 0) (Some []))"
    by (simp add: GenerateRefreshToken_def SignedString_HS256 test_hmac_def test_claims_def
        NewNumericDate_def RefreshTokenDuration_def Hour_def Minute_def Second_def Let_def)
  have p: "GenerateTokenPair test_hmac 0 0 0 0 123 456 [] =
     Inr \<lparr>AccessToken = Encoded (Some ''HS256'') (test_claims 900 0) (Some []),
          RefreshToken = Encoded (Some ''HS256'') (test_claims 604800 0) (Some [])\<rparr>"
    by (simp add: GenerateTokenPair_def a r)
  have v0: "Validate 0 0 (test_claims 900 0) = []"
    by (simp add: Validate_def verifyExpiresAt_def verifyNotBefore_def test_claims_def
        Second_def)
  have v: "ValidateToken release test_hmac 0
      (Encoded (Some ''HS256'') (test_claims 900 0) (Some [])) [] = Inr (test_claims 900 0)"
    unfolding ValidateToken_def ParseWithClaims_hmac[OF hmac_hash_HS256] v0
    by (simp add: test_hmac_def)
  have u: "GenerateAccessToken_UserID mac t1 t2 userID [] = Inl (errors_New ''secret key cannot be empty'')"
    "GenerateRefreshToken_UserID mac t1 t2 userID [] = Inl (errors_New ''secret key cannot be empty'')"
    "ValidateToken_UserID release mac now tokenString [] =
       Inl (errors_New ''secret key cannot be empty'')"
    by (simp_all add: GenerateAccessToken_UserID_def GenerateRefreshToken_UserID_def
        ValidateToken_UserID_def)
  have up: "GenerateTokenPair_UserID mac t1 t2 t3 t4 userID [] = Inl (errors_New ''secret key cannot be empty'')"
    by (simp add: GenerateTokenPair_UserID_def GenerateAccessToken_UserID_def)
  have k: "kind_of (errors_New ''secret key cannot be empty'') = EmptySecret"
    by (simp add: kind_of_def)
  show ?thesis
    by (intro conjI) (rule u up k a r p v)+
qed

subsection \<open>Expiry and issue time\<close>

lemma same_second_iff:
  "NewNumericDate (t_exp + AccessTokenDuration) = NewNumericDate t_iat + AccessTokenDuration
     \<longleftrightarrow> NewNumericDate t_exp = NewNumericDate t_iat"
  unfolding AccessTokenDuration_eq NewNumericDate_add by simp

text \<open>
  Claim C5. The expiry and the issue time come from two readings of the clock, each
  truncated to the second. With the first reading in the last nanosecond of second 0 and
  the second reading at second 1, the access token expires at second 900 and was issued
  at second 1: the expiry is not the issue time plus 15 minutes. The refresh token
  likewise.
\<close>

theorem expiry_and_issue_time_read_the_clock_twice:
  "GenerateAccessToken test_hmac 999999999 1000000000 123 456 ''supersecretkey'' =
     Inr (Encoded (Some ''HS256'') (test_claims 900 1) (Some ''supersecretkey'')) \<and>
   GenerateRefreshToken test_hmac 999999999 1000000000 123 456 ''supersecretkey'' =
     Inr (Encoded (Some ''HS256'') (test_claims 604800 1) (Some ''supersecretkey'')) \<and>
   ExpiresAt (test_claims 900 1) = Some (900 * Second) \<and>
   IssuedAt (test_claims 900 1) = Some (1 * Second) \<and>
   900 * Second \<noteq> 1 * Second + AccessTokenDuration \<and>
   604800 * Second \<noteq> 1 * Second + RefreshTokenDuration"
proof -
  have a: "GenerateAccessToken test_hmac 999999999 1000000000 123 456 ''supersecretkey'' =
     Inr (Encoded (Some ''HS256'') (test_claims 900 1) (Some ''supersecretkey''))"
    by (simp add: GenerateAccessToken_def SignedString_HS256 test_hmac_def test_claims_def
        NewNumericDate_def AccessTokenDuration_def Minute_def Second_def Let_def)
  have r: "GenerateRefreshToken test_hmac 999999999 1000000000 123 456 ''supersecretkey'' =
     Inr (Encoded (Some ''HS256'') (test_claims 604800 1) (Some ''supersecretkey''))"
    by (simp add: GenerateRefreshToken_def SignedString_HS256 test_hmac_def test_claims_def
        NewNumericDate_def RefreshTokenDuration_def Hour_def Minute_def Second_def Let_def)
  have f: "ExpiresAt (test_claims 900 1) = Some (900 * Second)"
    "IssuedAt (test_claims 900 1) = Some (1 * Second)"
    by (simp_all add: test_claims_def)
  have n: "900 * Second \<noteq> 1 * Second + AccessTokenDuration"
    "604800 * Second \<noteq> 1 * Second + RefreshTokenDuration"
    by (simp_all add: AccessTokenDuration_def RefreshTokenDuration_def Hour_def Minute_def
        Second_def)
  from a r f n show ?thesis by simp
qed

section \<open>Properties of the password policy\<close>

text \<open>
  Claim C8. \<^verbatim>\<open>ValidatePassword\<close> reports the length rule whenever the password has
  fewer than 8 bytes, whatever else it lacks; the uppercase rule when the length is right
  and no uppercase letter is present; the digit rule when only the digit is missing; and
  nothing when all three rules hold.
\<close>

theorem ValidatePassword_first_violated_rule:
  "(length password < 8 \<longrightarrow>
      ValidatePassword password = Some ''password must be at least 8 characters long'') \<and>
   (8 \<le> length password \<and> \<not> list_ex isUpper password \<longrightarrow>
      ValidatePassword password = Some ''password must contain at least one uppercase letter'') \<and>
   (8 \<le> length password \<and> list_ex isUpper password \<and> \<not> list_ex isDigit password \<longrightarrow>
      ValidatePassword password = Some ''password must contain at least one number'') \<and>
   (8 \<le> length password \<and> list_ex isUpper password \<and> list_ex isDigit password \<longrightarrow>
      ValidatePassword password = None)"
  by (simp add: ValidatePassword_def)

text \<open>The table of the repository's test \<^verbatim>\<open>TestValidatePassword\<close>.\<close>

theorem ValidatePassword_first_violated_rule_witness:
  "ValidatePassword ''short1'' = Some ''password must be at least 8 characters long'' \<and>
   \<not> list_ex isUpper ''short1'' \<and>
   ValidatePassword ''Short1'' = Some ''password must be at least 8 characters long'' \<and>
   ValidatePassword [] = Some ''password must be at least 8 characters long'' \<and>
   ValidatePassword ''nouppercase123'' =
     Some ''password must contain at least one uppercase letter'' \<and>
   ValidatePassword ''NoNumberTest'' = Some ''password must contain at least one number'' \<and>
   ValidatePassword ''StrongPass123'' = None"
proof -
  have len: "length ''short1'' < 8" "length ''Short1'' < 8" "length ([]::string) < 8"
    "8 \<le> length ''nouppercase123''" "8 \<le> length ''NoNumberTest''"
    "8 \<le> length ''StrongPass123''"
    by simp_all
  have up: "\<not> list_ex isUpper ''short1''" "\<not> list_ex isUpper ''nouppercase123''"
    "list_ex isUpper ''NoNumberTest''" "list_ex isUpper ''StrongPass123''"
    by (simp_all add: isUpper_def)
  have dg: "\<not> list_ex isDigit ''NoNumberTest''" "list_ex isDigit ''StrongPass123''"
    by (simp_all add: isDigit_def)
  from ValidatePassword_first_violated_rule[of "''short1''"] len(1)
  have 1: "ValidatePassword ''short1'' = Some ''password must be at least 8 characters long''"
    by blast
  from ValidatePassword_first_violated_rule[of "''Short1''"] len(2)
  have 2: "ValidatePassword ''Short1'' = Some ''password must be at least 8 characters long''"
    by blast
  from ValidatePassword_first_violated_rule[of "[]"] len(3)
  have 3: "ValidatePassword [] = Some ''password must be at least 8 characters long''"
    by blast
  from ValidatePassword_first_violated_rule[of "''nouppercase123''"] len(4) up(2)
  have 4: "ValidatePassword ''nouppercase123'' =
     Some ''password must contain at least one uppercase letter''"
    by blast
  from ValidatePassword_first_violated_rule[of "''NoNumberTest''"] len(5) up(3) dg(1)
  have 5: "ValidatePassword ''NoNumberTest'' = Some ''password must contain at least one number''"
    by blast
  from ValidatePassword_first_violated_rule[of "''StrongPass123''"] len(6) up(4) dg(2)
  have 6: "ValidatePassword ''StrongPass123'' = None"
    by blast
  from 1 2 3 4 5 6 up(1) show ?thesis by blast
qed

end
